theory Spec2Isabelle
  imports Main
begin

section \<open>The webhose client: a shallow embedding of \<open>webhose/__init__.py\<close>\<close>

text \<open>
  The module is Python 2 code (\<open>basestring\<close>, an eager \<open>map\<close> run for its effect, the
  implicit relative import of \<open>settings\<close>). Python values are modelled by a datatype,
  byte strings by \<open>string\<close>, every exception by a value of \<open>error\<close>, and an operation
  that may raise returns \<open>error + 'a\<close> with \<open>Inl\<close> for the exception.

  The module \<open>settings\<close> (the tables \<open>ALL_FIELDS\<close>, \<open>LIST_FIELDS\<close> and
  \<open>DIRECT_FIELDS\<close>) is not part of the sources: the three tables are parameters of
  every definition that reads them.
\<close>

subsection \<open>Python values and exceptions\<close>

datatype pyval = PNone | PBool bool | PStr string | PList "pyval list"

datatype error =
    TokenMissingException string
  | Exception string
  | LibraryError string
  | KeyError string
  | AttributeError
  | TypeError
  | ValueError
  | IndexError
  | OverflowError

definition bind :: "error + 'a \<Rightarrow> ('a \<Rightarrow> error + 'b) \<Rightarrow> error + 'b" where
  "bind m f = (case m of Inl e \<Rightarrow> Inl e | Inr x \<Rightarrow> f x)"

text \<open>\<open>map_err f xs\<close> is Python 2's eager \<open>map(f, xs)\<close> (and a list comprehension):
  left to right, stopping at the first exception.\<close>

fun map_err :: "('a \<Rightarrow> error + 'b) \<Rightarrow> 'a list \<Rightarrow> error + 'b list" where
  "map_err f [] = Inr []"
| "map_err f (x # xs) = bind (f x) (\<lambda>y. bind (map_err f xs) (\<lambda>ys. Inr (y # ys)))"

text \<open>\<open>filter_err p xs\<close> is Python 2's eager \<open>filter(p, xs)\<close> for a predicate that may raise.\<close>

fun filter_err :: "('a \<Rightarrow> error + bool) \<Rightarrow> 'a list \<Rightarrow> error + 'a list" where
  "filter_err p [] = Inr []"
| "filter_err p (x # xs) =
     bind (p x) (\<lambda>b. bind (filter_err p xs) (\<lambda>ys. Inr (if b then x # ys else ys)))"

text \<open>Truth value testing: \<open>None\<close>, \<open>False\<close>, the empty string and the empty list are false.\<close>

fun truthy :: "pyval \<Rightarrow> bool" where
  "truthy PNone = False"
| "truthy (PBool b) = b"
| "truthy (PStr s) = (s \<noteq> [])"
| "truthy (PList xs) = (xs \<noteq> [])"

text \<open>\<open>sep.join(xs)\<close> on strings.\<close>

fun str_join :: "string \<Rightarrow> string list \<Rightarrow> string" where
  "str_join sep [] = []"
| "str_join sep [x] = x"
| "str_join sep (x # y # ys) = x @ sep @ str_join sep (y # ys)"

text \<open>\<open>s.replace(old, new)\<close> for a one-character \<open>old\<close>.\<close>

definition str_replace :: "char \<Rightarrow> string \<Rightarrow> string \<Rightarrow> string" where
  "str_replace old new s = concat (map (\<lambda>c. if c = old then new else [c]) s)"

text \<open>\<open>repr\<close> of a Python 2 byte string: double quotes when the string has a single
  quote and no double quote, single quotes otherwise; the quote and the backslash are
  escaped, tab, newline and carriage return are written symbolically and every other
  byte outside the printable ASCII range as \<open>\xNN\<close>.\<close>

definition hex_digit :: "nat \<Rightarrow> char" where
  "hex_digit n = ''0123456789abcdef'' ! (n mod 16)"

definition repr_char :: "char \<Rightarrow> char \<Rightarrow> string" where
  "repr_char quote c =
     (if c = quote \<or> c = CHR 0x5C then [CHR 0x5C, c]
      else if c = CHR 0x09 then [CHR 0x5C, CHR ''t'']
      else if c = CHR 0x0A then [CHR 0x5C, CHR ''n'']
      else if c = CHR 0x0D then [CHR 0x5C, CHR ''r'']
      else if (of_char c :: nat) < 32 \<or> 127 \<le> (of_char c :: nat)
        then [CHR 0x5C, CHR ''x'', hex_digit (of_char c div 16), hex_digit (of_char c)]
      else [c])"

definition repr_str :: "string \<Rightarrow> string" where
  "repr_str s =
     (let quote = (if CHR 0x27 \<in> set s \<and> CHR 0x22 \<notin> set s then CHR 0x22 else CHR 0x27)
      in [quote] @ concat (map (repr_char quote) s) @ [quote])"

text \<open>\<open>py_show False v\<close> is \<open>str(v)\<close>, which is also what \<open>"%s" % v\<close> inserts;
  \<open>py_show True v\<close> is \<open>repr(v)\<close>. The two differ on strings only; the items of a list
  are always shown by \<open>repr\<close>.\<close>

fun py_show :: "bool \<Rightarrow> pyval \<Rightarrow> string" where
  "py_show r PNone = ''None''"
| "py_show r (PBool b) = (if b then ''True'' else ''False'')"
| "py_show r (PStr s) = (if r then repr_str s else s)"
| "py_show r (PList xs) = ''['' @ str_join '', '' (map (py_show True) xs) @ '']''"

definition py_str :: "pyval \<Rightarrow> string" where
  "py_str v = py_show False v"

text \<open>Iterating a value (\<open>for value in v\<close>): a list gives its items, a string its
  characters, \<open>None\<close> and booleans are not iterable.\<close>

fun py_iter :: "pyval \<Rightarrow> error + pyval list" where
  "py_iter (PList xs) = Inr xs"
| "py_iter (PStr s) = Inr (map (\<lambda>c. PStr [c]) s)"
| "py_iter PNone = Inl TypeError"
| "py_iter (PBool b) = Inl TypeError"

text \<open>\<open>" ".join(term for term in qs)\<close>: every item must be a string.\<close>

fun the_str :: "pyval \<Rightarrow> error + string" where
  "the_str (PStr s) = Inr s"
| "the_str v = Inl TypeError"

definition py_join :: "string \<Rightarrow> pyval list \<Rightarrow> error + string" where
  "py_join sep qs = bind (map_err the_str qs) (\<lambda>ss. Inr (str_join sep ss))"

subsection \<open>Query\<close>

text \<open>A \<open>Query\<close> object is its instance dictionary: the attributes that have been set.
  Reading an attribute that was never set raises \<open>AttributeError\<close>.\<close>

type_synonym query = "string \<rightharpoonup> pyval"

definition getattr :: "query \<Rightarrow> string \<Rightarrow> error + pyval" where
  "getattr q name = (case q name of None \<Rightarrow> Inl AttributeError | Some v \<Rightarrow> Inr v)"

text \<open>\<open>Query.__setattr__\<close>: a string assigned to a list field is wrapped in a list.\<close>

fun is_basestring :: "pyval \<Rightarrow> bool" where
  "is_basestring (PStr s) = True"
| "is_basestring v = False"

definition setattr :: "string list \<Rightarrow> query \<Rightarrow> string \<Rightarrow> pyval \<Rightarrow> query" where
  "setattr LIST_FIELDS q name v =
     (let v' = (if name \<in> set LIST_FIELDS \<and> is_basestring v then PList [v] else v)
      in q(name \<mapsto> v'))"

text \<open>\<open>Query.__init__\<close>: every name of \<open>ALL_FIELDS\<close>, in order, is set to the keyword
  argument of that name, or to \<open>None\<close>; other keyword arguments are ignored.\<close>

definition kwargs_get :: "(string \<rightharpoonup> pyval) \<Rightarrow> string \<Rightarrow> pyval" where
  "kwargs_get kwargs name = (case kwargs name of None \<Rightarrow> PNone | Some v \<Rightarrow> v)"

definition Query_init :: "string list \<Rightarrow> string list \<Rightarrow> (string \<rightharpoonup> pyval) \<Rightarrow> query" where
  "Query_init ALL_FIELDS LIST_FIELDS kwargs =
     foldl (\<lambda>q name. setattr LIST_FIELDS q name (kwargs_get kwargs name)) Map.empty ALL_FIELDS"

text \<open>\<open>Query.list_string\<close> and \<open>Query.direct_string\<close>.\<close>

definition list_string :: "query \<Rightarrow> string \<Rightarrow> error + string" where
  "list_string q field =
     bind (getattr q field) (\<lambda>v.
     bind (py_iter v) (\<lambda>vals.
       Inr (''('' @ str_join '' OR '' (map (\<lambda>x. field @ '':'' @ py_str x) vals) @ '')'')))"

definition direct_string :: "query \<Rightarrow> string \<Rightarrow> error + string" where
  "direct_string q field = bind (getattr q field) (\<lambda>v. Inr (field @ '':'' @ py_str v))"

text \<open>\<open>some_terms.replace(" ", " OR ")\<close> is a string method: another value raises
  \<open>AttributeError\<close>.\<close>

fun replace_spaces :: "pyval \<Rightarrow> error + string" where
  "replace_spaces (PStr s) = Inr (str_replace CHR '' '' '' OR '' s)"
| "replace_spaces v = Inl AttributeError"

text \<open>One \<open>if self.name: qs.append(...)\<close> statement of \<open>query_string\<close>: \<open>mk\<close> computes
  the appended item from the attribute's value.\<close>

definition append_if :: "query \<Rightarrow> string \<Rightarrow> (pyval \<Rightarrow> error + pyval) \<Rightarrow> pyval list \<Rightarrow> error + pyval list" where
  "append_if q name mk qs =
     bind (getattr q name) (\<lambda>v.
       if truthy v then bind (mk v) (\<lambda>item. Inr (qs @ [item])) else Inr qs)"

definition attr_truthy :: "query \<Rightarrow> string \<Rightarrow> error + bool" where
  "attr_truthy q name = bind (getattr q name) (\<lambda>v. Inr (truthy v))"

text \<open>\<open>Query.query_string\<close>, statement by statement.\<close>

definition query_string :: "string list \<Rightarrow> string list \<Rightarrow> query \<Rightarrow> error + string" where
  "query_string DIRECT_FIELDS LIST_FIELDS q =
     bind (append_if q ''all_terms'' (\<lambda>v. Inr v) []) (\<lambda>qs.
     bind (append_if q ''exact_phrase''
             (\<lambda>v. Inr (PStr ([CHR 0x22] @ py_str v @ [CHR 0x22]))) qs) (\<lambda>qs.
     bind (append_if q ''some_terms''
             (\<lambda>v. bind (replace_spaces v) (\<lambda>s. Inr (PStr (''('' @ s @ '')'')))) qs) (\<lambda>qs.
     bind (append_if q ''exclude'' (\<lambda>v. Inr (PStr (''-'' @ py_str v))) qs) (\<lambda>qs.
     bind (append_if q ''is_first'' (\<lambda>v. Inr (PStr ''is_first:true'')) qs) (\<lambda>qs.
     bind (append_if q ''thread_title''
             (\<lambda>v. Inr (PStr (''thread.title:('' @ py_str v @ '')''))) qs) (\<lambda>qs.
     bind (append_if q ''thread_section_title''
             (\<lambda>v. Inr (PStr (''thread.section_title:('' @ py_str v @ '')''))) qs) (\<lambda>qs.
     bind (append_if q ''language''
             (\<lambda>v. Inr (PStr (''language:('' @ py_str v @ '')''))) qs) (\<lambda>qs.
     bind (append_if q ''thread_country''
             (\<lambda>v. Inr (PStr (''thread.country:'' @ py_str v))) qs) (\<lambda>qs.
     bind (filter_err (attr_truthy q) DIRECT_FIELDS) (\<lambda>ds.
     bind (map_err (direct_string q) ds) (\<lambda>dstrs.
     bind (filter_err (attr_truthy q) LIST_FIELDS) (\<lambda>ls.
     bind (map_err (list_string q) ls) (\<lambda>lstrs.
       py_join '' '' (qs @ map PStr dstrs @ map PStr lstrs))))))))))))))"

subsection \<open>The rendering as the specification words it\<close>

text \<open>The nine fields with a rendering rule of their own, in the order of the
  specification's steps 1 to 9.\<close>

definition special_fields :: "string list" where
  "special_fields = [''all_terms'', ''exact_phrase'', ''some_terms'', ''exclude'', ''is_first'',
     ''thread_title'', ''thread_section_title'', ''language'', ''thread_country'']"

text \<open>A query holds values of the types of the data model: a scalar field is unset
  (\<open>None\<close>) or a string, the flag \<open>is_first\<close> is unset or a boolean, a list field is
  unset or a list of strings. Every field the rendering reads has been set by the
  constructor.\<close>

fun none_or_str :: "pyval option \<Rightarrow> bool" where
  "none_or_str (Some PNone) = True"
| "none_or_str (Some (PStr s)) = True"
| "none_or_str v = False"

fun none_or_bool :: "pyval option \<Rightarrow> bool" where
  "none_or_bool (Some PNone) = True"
| "none_or_bool (Some (PBool b)) = True"
| "none_or_bool v = False"

fun none_or_str_list :: "pyval option \<Rightarrow> bool" where
  "none_or_str_list (Some PNone) = True"
| "none_or_str_list (Some (PList xs)) = list_all is_basestring xs"
| "none_or_str_list v = False"

definition well_typed :: "string list \<Rightarrow> string list \<Rightarrow> query \<Rightarrow> bool" where
  "well_typed DIRECT_FIELDS LIST_FIELDS q =
     (list_all (\<lambda>f. none_or_str (q f))
        [''all_terms'', ''exact_phrase'', ''some_terms'', ''exclude'',
         ''thread_title'', ''thread_section_title'', ''language'', ''thread_country'']
      \<and> none_or_bool (q ''is_first'')
      \<and> list_all (\<lambda>f. none_or_str (q f)) DIRECT_FIELDS
      \<and> list_all (\<lambda>f. none_or_str_list (q f)) LIST_FIELDS)"

text \<open>A field is set when its value is not \<open>None\<close>; it is rendered when its value is
  true in Python's sense.\<close>

definition value_of :: "query \<Rightarrow> string \<Rightarrow> pyval" where
  "value_of q f = (case q f of None \<Rightarrow> PNone | Some v \<Rightarrow> v)"

definition is_set :: "query \<Rightarrow> string \<Rightarrow> bool" where
  "is_set q f = (value_of q f \<noteq> PNone)"

definition rendered :: "query \<Rightarrow> string \<Rightarrow> bool" where
  "rendered q f = truthy (value_of q f)"

fun scalar_text :: "pyval \<Rightarrow> string" where
  "scalar_text (PStr s) = s"
| "scalar_text v = []"

fun list_items :: "pyval \<Rightarrow> string list" where
  "list_items (PList xs) = map scalar_text xs"
| "list_items v = []"

text \<open>Steps 1 to 11: each field with its clause, in the fixed order; the rendering joins
  the clauses of the rendered fields with single spaces.\<close>

definition spec_steps :: "string list \<Rightarrow> string list \<Rightarrow> (string \<times> (pyval \<Rightarrow> string)) list" where
  "spec_steps DIRECT_FIELDS LIST_FIELDS =
     [(''all_terms'', \<lambda>v. scalar_text v),
      (''exact_phrase'', \<lambda>v. [CHR 0x22] @ scalar_text v @ [CHR 0x22]),
      (''some_terms'', \<lambda>v. ''('' @ str_replace CHR '' '' '' OR '' (scalar_text v) @ '')''),
      (''exclude'', \<lambda>v. ''-'' @ scalar_text v),
      (''is_first'', \<lambda>v. ''is_first:true''),
      (''thread_title'', \<lambda>v. ''thread.title:('' @ scalar_text v @ '')''),
      (''thread_section_title'', \<lambda>v. ''thread.section_title:('' @ scalar_text v @ '')''),
      (''language'', \<lambda>v. ''language:('' @ scalar_text v @ '')''),
      (''thread_country'', \<lambda>v. ''thread.country:'' @ scalar_text v)]
     @ map (\<lambda>f. (f, \<lambda>v. f @ '':'' @ scalar_text v)) DIRECT_FIELDS
     @ map (\<lambda>f. (f, \<lambda>v. ''('' @ str_join '' OR '' (map (\<lambda>x. f @ '':'' @ x) (list_items v)) @ '')''))
         LIST_FIELDS"

definition rendered_steps :: "string list \<Rightarrow> string list \<Rightarrow> query \<Rightarrow> (string \<times> (pyval \<Rightarrow> string)) list" where
  "rendered_steps DIRECT_FIELDS LIST_FIELDS q =
     filter (\<lambda>(f, clause). rendered q f) (spec_steps DIRECT_FIELDS LIST_FIELDS)"

definition spec_render :: "string list \<Rightarrow> string list \<Rightarrow> query \<Rightarrow> string" where
  "spec_render DIRECT_FIELDS LIST_FIELDS q =
     str_join '' ''
       (map (\<lambda>(f, clause). clause (value_of q f)) (rendered_steps DIRECT_FIELDS LIST_FIELDS q))"

subsection \<open>Rendering: the code against the specification's steps\<close>

lemma bind_Inr [simp]: "bind (Inr x) f = f x"
  by (simp add: bind_def)

lemma bind_Inl [simp]: "bind (Inl e) f = Inl e"
  by (simp add: bind_def)

lemma map_err_the_str: "map_err the_str (map PStr xs) = Inr xs"
  by (induction xs) simp_all

lemma py_join_strs: "py_join sep (map PStr xs) = Inr (str_join sep xs)"
  by (simp add: py_join_def map_err_the_str)

lemma none_or_str_cases:
  "none_or_str v \<Longrightarrow> v = Some PNone \<or> (\<exists>s. v = Some (PStr s))"
  by (cases v rule: none_or_str.cases) simp_all

lemma none_or_bool_cases:
  "none_or_bool v \<Longrightarrow> v = Some PNone \<or> (\<exists>b. v = Some (PBool b))"
  by (cases v rule: none_or_bool.cases) simp_all

lemma none_or_str_list_cases:
  "none_or_str_list v \<Longrightarrow> v = Some PNone \<or> (\<exists>xs. v = Some (PList xs) \<and> list_all is_basestring xs)"
  by (cases v rule: none_or_str_list.cases) simp_all

lemma append_if_scalar:
  assumes "none_or_str (q name)"
    and "\<And>s. mk (PStr s) = Inr (PStr (clause (PStr s)))"
  shows "append_if q name mk (map PStr ss) =
    Inr (map PStr (ss @ (if rendered q name then [clause (value_of q name)] else [])))"
  using none_or_str_cases [OF assms(1)] assms(2)
  by (auto simp: append_if_def getattr_def rendered_def value_of_def)

lemma append_if_flag:
  assumes "none_or_bool (q name)"
    and "\<And>b. mk (PBool b) = Inr (PStr (clause (PBool b)))"
  shows "append_if q name mk (map PStr ss) =
    Inr (map PStr (ss @ (if rendered q name then [clause (value_of q name)] else [])))"
  using none_or_bool_cases [OF assms(1)] assms(2)
  by (auto simp: append_if_def getattr_def rendered_def value_of_def)

lemma filter_err_truthy:
  "list_all (\<lambda>f. q f \<noteq> None) fs \<Longrightarrow> filter_err (attr_truthy q) fs = Inr (filter (rendered q) fs)"
  by (induction fs) (auto simp: attr_truthy_def getattr_def rendered_def value_of_def)

lemma map_err_pointwise:
  "(\<And>x. x \<in> set xs \<Longrightarrow> f x = Inr (g x)) \<Longrightarrow> map_err f xs = Inr (map g xs)"
  by (induction xs) simp_all

lemma direct_string_typed:
  assumes "none_or_str (q f)" and "rendered q f"
  shows "direct_string q f = Inr (f @ '':'' @ scalar_text (value_of q f))"
  using none_or_str_cases [OF assms(1)] assms(2)
  by (auto simp: direct_string_def getattr_def rendered_def value_of_def py_str_def)

lemma py_str_items:
  "list_all is_basestring xs \<Longrightarrow>
   map (\<lambda>x. f @ '':'' @ py_str x) xs = map (\<lambda>x. f @ '':'' @ x) (map scalar_text xs)"
proof (induction xs)
  case Nil
  then show ?case by simp
next
  case (Cons x xs)
  then show ?case by (cases x) (simp_all add: py_str_def)
qed

lemma list_string_typed:
  assumes "none_or_str_list (q f)" and "rendered q f"
  shows "list_string q f =
    Inr (''('' @ str_join '' OR '' (map (\<lambda>x. f @ '':'' @ x) (list_items (value_of q f))) @ '')'')"
proof -
  from none_or_str_list_cases [OF assms(1)] assms(2)
  obtain xs where xs: "q f = Some (PList xs)" "list_all is_basestring xs"
    by (auto simp: rendered_def value_of_def)
  have "list_string q f =
    Inr (''('' @ str_join '' OR '' (map (\<lambda>x. f @ '':'' @ py_str x) xs) @ '')'')"
    using xs by (simp add: list_string_def getattr_def)
  also have "map (\<lambda>x. f @ '':'' @ py_str x) xs = map (\<lambda>x. f @ '':'' @ x) (map scalar_text xs)"
    by (rule py_str_items [OF xs(2)])
  finally show ?thesis
    using xs by (simp add: value_of_def)
qed

lemma map_err_direct:
  assumes "list_all (\<lambda>f. none_or_str (q f)) fs"
  shows "map_err (direct_string q) (filter (rendered q) fs) =
     Inr (map (\<lambda>f. f @ '':'' @ scalar_text (value_of q f)) (filter (rendered q) fs))"
  using assms by (intro map_err_pointwise direct_string_typed) (auto simp: list_all_iff)

lemma map_err_list:
  assumes "list_all (\<lambda>f. none_or_str_list (q f)) fs"
  shows "map_err (list_string q) (filter (rendered q) fs) =
     Inr (map (\<lambda>f. ''('' @ str_join '' OR '' (map (\<lambda>x. f @ '':'' @ x) (list_items (value_of q f))) @ '')'')
            (filter (rendered q) fs))"
  using assms by (intro map_err_pointwise list_string_typed) (auto simp: list_all_iff)

lemma present_of_str: "list_all (\<lambda>f. none_or_str (q f)) fs \<Longrightarrow> list_all (\<lambda>f. q f \<noteq> None) fs"
  by (induction fs) (auto dest: none_or_str_cases)

lemma present_of_list: "list_all (\<lambda>f. none_or_str_list (q f)) fs \<Longrightarrow> list_all (\<lambda>f. q f \<noteq> None) fs"
  by (induction fs) (auto dest: none_or_str_list_cases)

lemma map_filter_Cons:
  "map g (filter P (x # xs)) = (if P x then [g x] else []) @ map g (filter P xs)"
  by simp

lemma query_string_refines:
  assumes wt: "well_typed D L q"
  shows "query_string D L q = Inr (spec_render D L q)"
proof -
  from wt have s: "none_or_str (q ''all_terms'')" "none_or_str (q ''exact_phrase'')"
    "none_or_str (q ''some_terms'')" "none_or_str (q ''exclude'')"
    "none_or_str (q ''thread_title'')" "none_or_str (q ''thread_section_title'')"
    "none_or_str (q ''language'')" "none_or_str (q ''thread_country'')"
    and b: "none_or_bool (q ''is_first'')"
    and d: "list_all (\<lambda>f. none_or_str (q f)) D"
    and l: "list_all (\<lambda>f. none_or_str_list (q f)) L"
    by (simp_all add: well_typed_def)
  have e: "[] = map PStr []" by simp
  show ?thesis
    unfolding query_string_def
    apply (subst e)
    apply (subst append_if_scalar [where clause = "\<lambda>v. scalar_text v" and q = q, OF s(1)], simp)
    apply (simp only: bind_Inr)
    apply (subst append_if_scalar [where clause = "\<lambda>v. [CHR 0x22] @ scalar_text v @ [CHR 0x22]" and q = q, OF s(2)], simp add: py_str_def)
    apply (simp only: bind_Inr)
    apply (subst append_if_scalar [where clause = "\<lambda>v. ''('' @ str_replace CHR '' '' '' OR '' (scalar_text v) @ '')''" and q = q, OF s(3)], simp)
    apply (simp only: bind_Inr)
    apply (subst append_if_scalar [where clause = "\<lambda>v. ''-'' @ scalar_text v" and q = q, OF s(4)], simp add: py_str_def)
    apply (simp only: bind_Inr)
    apply (subst append_if_flag [where clause = "\<lambda>v. ''is_first:true''" and q = q, OF b], simp)
    apply (simp only: bind_Inr)
    apply (subst append_if_scalar [where clause = "\<lambda>v. ''thread.title:('' @ scalar_text v @ '')''" and q = q, OF s(5)], simp add: py_str_def)
    apply (simp only: bind_Inr)
    apply (subst append_if_scalar [where clause = "\<lambda>v. ''thread.section_title:('' @ scalar_text v @ '')''" and q = q, OF s(6)], simp add: py_str_def)
    apply (simp only: bind_Inr)
    apply (subst append_if_scalar [where clause = "\<lambda>v. ''language:('' @ scalar_text v @ '')''" and q = q, OF s(7)], simp add: py_str_def)
    apply (simp only: bind_Inr)
    apply (subst append_if_scalar [where clause = "\<lambda>v. ''thread.country:'' @ scalar_text v" and q = q, OF s(8)], simp add: py_str_def)
    apply (simp only: bind_Inr filter_err_truthy [OF present_of_str [OF d]] filter_err_truthy [OF present_of_list [OF l]]
        map_err_direct [OF d] map_err_list [OF l] map_append [symmetric] py_join_strs)
    apply (simp only: spec_render_def rendered_steps_def spec_steps_def filter_append map_append map_filter_Cons append_Cons [symmetric])
    apply (simp add: filter_map comp_def)
    done
qed


lemma foldl_setattr:
  "foldl (\<lambda>q name. setattr L q name (kwargs_get kw name)) q0 fs f =
     (if f \<in> set fs
      then Some (if f \<in> set L \<and> is_basestring (kwargs_get kw f) then PList [kwargs_get kw f]
                 else kwargs_get kw f)
      else q0 f)"
  by (induction fs arbitrary: q0) (auto simp: setattr_def Let_def)

lemma Query_init_apply:
  "Query_init AF L kw f =
     (if f \<in> set AF
      then Some (if f \<in> set L \<and> is_basestring (kwargs_get kw f) then PList [kwargs_get kw f]
                 else kwargs_get kw f)
      else None)"
  by (simp add: Query_init_def foldl_setattr)

lemma filter_steps_none:
  "(\<And>f. f \<in> set fs \<Longrightarrow> \<not> rendered q f) \<Longrightarrow>
   filter (\<lambda>(f, clause). rendered q f) (map (\<lambda>f. (f, g f)) fs) = []"
  by (induction fs) simp_all

lemma some_terms_example:
  assumes sub: "set special_fields \<union> set D \<union> set L \<subseteq> set AF"
    and nin: "''some_terms'' \<notin> set D \<union> set L"
  shows "query_string D L (Query_init AF L (Map.empty(''some_terms'' \<mapsto> PStr ''a b c'')))
     = Inr ''(a OR b OR c)''"
proof -
  define q where "q = Query_init AF L (Map.empty(''some_terms'' \<mapsto> PStr ''a b c''))"
  have st: "q ''some_terms'' = Some (PStr ''a b c'')"
    using sub nin by (simp add: q_def Query_init_apply special_fields_def kwargs_get_def)
  have other: "q f = Some PNone" if "f \<in> set AF" "f \<noteq> ''some_terms''" for f
    using that by (simp add: q_def Query_init_apply kwargs_get_def)
  have sp: "q ''all_terms'' = Some PNone" "q ''exact_phrase'' = Some PNone"
    "q ''exclude'' = Some PNone" "q ''is_first'' = Some PNone"
    "q ''thread_title'' = Some PNone" "q ''thread_section_title'' = Some PNone"
    "q ''language'' = Some PNone" "q ''thread_country'' = Some PNone"
    using sub by (simp_all add: other special_fields_def)
  have dl: "q f = Some PNone" if "f \<in> set D \<union> set L" for f
    using that sub nin by (intro other) auto
  have wt: "well_typed D L q"
    using dl by (simp add: well_typed_def st sp list_all_iff)
  have nr: "\<not> rendered q f" if "f \<in> set D \<union> set L" for f
    using dl [OF that] by (simp add: rendered_def value_of_def)
  have "spec_render D L q = ''(a OR b OR c)''"
    using nr by (simp add: spec_render_def rendered_steps_def spec_steps_def filter_steps_none rendered_def
        value_of_def st sp str_replace_def)
  with query_string_refines [OF wt] show ?thesis
    by (simp add: q_def)
qed

lemma rendered_is_set: "rendered q f \<Longrightarrow> is_set q f"
  by (auto simp: rendered_def is_set_def)

text \<open>
  C1. On every query whose fields hold values of their types, \<open>query_string\<close> returns
  the clauses of the rendered fields in the fixed order of steps 1 to 11, joined by
  single spaces: all-terms verbatim, the phrase in double quotes, some-terms with
  \<open> OR \<close> for each space and in parentheses, exclude after \<open>-\<close>, \<open>is_first:true\<close>,
  \<open>thread.title:(v)\<close>, \<open>thread.section_title:(v)\<close>, \<open>language:(v)\<close>,
  \<open>thread.country:v\<close>, the direct fields as \<open>field:value\<close>, the list fields as
  parenthesised OR-groups; a clause is there only if its field is set. A query built
  with only some-terms \<open>"a b c"\<close> renders \<open>(a OR b OR c)\<close>.
\<close>

theorem query_string_fixed_order:
  "(well_typed D L q \<longrightarrow>
      query_string D L q = Inr (spec_render D L q)
      \<and> list_all (\<lambda>(f, clause). is_set q f) (rendered_steps D L q))
   \<and> (set special_fields \<union> set D \<union> set L \<subseteq> set AF \<and> ''some_terms'' \<notin> set D \<union> set L \<longrightarrow>
      query_string D L (Query_init AF L (Map.empty(''some_terms'' \<mapsto> PStr ''a b c'')))
        = Inr ''(a OR b OR c)'')"
  by (auto simp: query_string_refines some_terms_example list_all_iff rendered_is_set
      rendered_steps_def simp del: Un_iff)

text \<open>A query built by the constructor, for a settings module with one direct field
  (\<open>author\<close>) and one list field (\<open>site\<close>).\<close>

definition example_fields :: "string list" where
  "example_fields = special_fields @ [''author'', ''site'']"

definition example_query :: query where
  "example_query = Query_init example_fields [''site'']
     (Map.empty(''all_terms'' \<mapsto> PStr ''cats'', ''exact_phrase'' \<mapsto> PStr ''hello world'',
        ''is_first'' \<mapsto> PBool True, ''author'' \<mapsto> PStr ''bob'',
        ''site'' \<mapsto> PList [PStr ''a'', PStr ''b'']))"

lemma example_query_apply:
  "example_query f =
     (if f = ''all_terms'' then Some (PStr ''cats'')
      else if f = ''exact_phrase'' then Some (PStr ''hello world'')
      else if f = ''is_first'' then Some (PBool True)
      else if f = ''author'' then Some (PStr ''bob'')
      else if f = ''site'' then Some (PList [PStr ''a'', PStr ''b''])
      else if f \<in> set example_fields then Some PNone else None)"
  by (simp add: example_query_def Query_init_apply kwargs_get_def example_fields_def
      special_fields_def)

lemma example_query_well_typed: "well_typed [''author''] [''site''] example_query"
  by (simp add: well_typed_def example_query_apply example_fields_def special_fields_def)

lemma example_query_render:
  "spec_render [''author''] [''site''] example_query =
     ''cats '' @ [CHR 0x22] @ ''hello world'' @ [CHR 0x22] @
     '' is_first:true author:bob (site:a OR site:b)''"
  by (simp add: spec_render_def rendered_steps_def spec_steps_def rendered_def value_of_def
      example_query_apply example_fields_def special_fields_def)

theorem query_string_fixed_order_witness:
  "well_typed [''author''] [''site''] example_query
   \<and> query_string [''author''] [''site''] example_query =
       Inr (''cats '' @ [CHR 0x22] @ ''hello world'' @ [CHR 0x22] @
            '' is_first:true author:bob (site:a OR site:b)'')
   \<and> set special_fields \<union> set [''author''] \<union> set [''site''] \<subseteq> set example_fields
   \<and> ''some_terms'' \<notin> set [''author''] \<union> set [''site'']
   \<and> query_string [''author''] [''site'']
        (Query_init example_fields [''site''] (Map.empty(''some_terms'' \<mapsto> PStr ''a b c'')))
       = Inr ''(a OR b OR c)''"
proof -
  have sub: "set special_fields \<union> set [''author''] \<union> set [''site''] \<subseteq> set example_fields"
    by (auto simp: example_fields_def)
  have nin: "''some_terms'' \<notin> set [''author''] \<union> set [''site'']"
    by simp
  from query_string_fixed_order [of "[''author'']" "[''site'']" example_query example_fields]
    example_query_well_typed sub nin
  have "query_string [''author''] [''site''] example_query =
      Inr (spec_render [''author''] [''site''] example_query)"
    and "query_string [''author''] [''site'']
        (Query_init example_fields [''site''] (Map.empty(''some_terms'' \<mapsto> PStr ''a b c'')))
       = Inr ''(a OR b OR c)''"
    by blast+
  then show ?thesis
    using example_query_well_typed sub nin by (simp only: example_query_render) blast
qed

subsection \<open>List fields\<close>

lemma filter_only:
  "distinct xs \<Longrightarrow> x \<in> set xs \<Longrightarrow> filter (\<lambda>y. y = x) xs = [x]"
proof (induction xs)
  case Nil
  then show ?case by simp
next
  case (Cons a xs)
  show ?case
  proof (cases "a = x")
    case True
    with Cons.prems have "x \<notin> set xs" by simp
    then have "filter (\<lambda>y. y = x) xs = []" by (auto simp: filter_empty_conv)
    with True show ?thesis by simp
  next
    case False
    with Cons show ?thesis by simp
  qed
qed

lemma list_items_strs: "list_items (PList (map PStr vs)) = vs"
  by (simp add: comp_def)

lemma only_list_field:
  assumes sub: "set special_fields \<union> set D \<union> set L \<subseteq> set AF"
    and f: "f \<in> set L" "f \<notin> set D" "f \<notin> set special_fields" "distinct L"
    and qf: "q f = Some (PList (map PStr vs))" "vs \<noteq> []"
    and other: "\<And>g. g \<in> set AF \<Longrightarrow> g \<noteq> f \<Longrightarrow> q g = Some PNone"
  shows "query_string D L q =
    Inr (''('' @ str_join '' OR '' (map (\<lambda>v. f @ '':'' @ v) vs) @ '')'')"
proof -
  have sp: "q ''all_terms'' = Some PNone" "q ''exact_phrase'' = Some PNone"
    "q ''some_terms'' = Some PNone"
    "q ''exclude'' = Some PNone" "q ''is_first'' = Some PNone"
    "q ''thread_title'' = Some PNone" "q ''thread_section_title'' = Some PNone"
    "q ''language'' = Some PNone" "q ''thread_country'' = Some PNone"
    using sub f(3) by (auto intro!: other simp: special_fields_def)
  have d: "q g = Some PNone" if "g \<in> set D" for g
    using that sub f(2) by (intro other) auto
  have l: "q g = Some PNone" if "g \<in> set L" "g \<noteq> f" for g
    using that sub by (intro other) auto
  have lt: "none_or_str_list (q g)" if "g \<in> set L" for g
  proof (cases "g = f")
    case True
    then show ?thesis using qf(1) by (simp add: list_all_iff)
  next
    case False
    then show ?thesis using l [OF that] by simp
  qed
  have wt: "well_typed D L q"
    using d lt by (simp add: well_typed_def sp list_all_iff)
  have nd: "\<not> rendered q g" if "g \<in> set D" for g
    using d [OF that] by (simp add: rendered_def value_of_def)
  have "rendered q g = (g = f)" if "g \<in> set L" for g
  proof (cases "g = f")
    case True
    then show ?thesis using qf by (simp add: rendered_def value_of_def)
  next
    case False
    then show ?thesis using l [OF that] by (simp add: rendered_def value_of_def)
  qed
  then have "filter (rendered q) L = filter (\<lambda>g. g = f) L"
    by (intro filter_cong) simp_all
  then have fl: "filter (rendered q) L = [f]"
    using filter_only [OF f(4) f(1)] by simp
  have "filter (\<lambda>(g, clause). rendered q g) (map (\<lambda>g. (g, c g)) L) = [(f, c f)]" for c :: "string \<Rightarrow> pyval \<Rightarrow> string"
    using fl by (simp add: filter_map comp_def)
  then have "spec_render D L q = ''('' @ str_join '' OR '' (map (\<lambda>v. f @ '':'' @ v) vs) @ '')''"
    using nd qf(1) by (simp add: spec_render_def rendered_steps_def spec_steps_def filter_steps_none
        rendered_def value_of_def sp comp_def)
  with query_string_refines [OF wt] show ?thesis
    by simp
qed

text \<open>
  C2. For every list field \<open>f\<close> of the settings: assigning a string to \<open>f\<close> stores the
  one-element list of that string (by \<open>__setattr__\<close>, and so by the constructor), and a
  query with only \<open>f\<close> set renders as the parenthesised OR-group over every value of
  the list: \<open>(f:s)\<close> for the string \<open>s\<close>, \<open>(f:v1 OR f:v2 ...)\<close> for a list of strings.
  With \<open>site\<close>: \<open>"cnn.com"\<close> renders \<open>(site:cnn.com)\<close> and \<open>["a","b"]\<close> renders
  \<open>(site:a OR site:b)\<close>.
\<close>

theorem list_field_normalized_and_rendered:
  assumes "set special_fields \<union> set D \<union> set L \<subseteq> set AF"
    and "f \<in> set L" "f \<notin> set D" "f \<notin> set special_fields" "distinct L"
  shows "setattr L q f (PStr s) f = Some (PList [PStr s])
    \<and> Query_init AF L (Map.empty(f \<mapsto> PStr s)) f = Some (PList [PStr s])
    \<and> query_string D L (Query_init AF L (Map.empty(f \<mapsto> PStr s))) =
        Inr (''('' @ f @ '':'' @ s @ '')'')
    \<and> (vs \<noteq> [] \<longrightarrow>
        query_string D L (Query_init AF L (Map.empty(f \<mapsto> PList (map PStr vs)))) =
          Inr (''('' @ str_join '' OR '' (map (\<lambda>v. f @ '':'' @ v) vs) @ '')''))"
proof -
  have inAF: "f \<in> set AF" using assms by auto
  have a: "setattr L q f (PStr s) f = Some (PList [PStr s])"
    using assms(2) by (simp add: setattr_def)
  have b: "Query_init AF L (Map.empty(f \<mapsto> PStr s)) f = Some (PList [PStr s])"
    using assms(2) inAF by (simp add: Query_init_apply kwargs_get_def)
  have c: "query_string D L (Query_init AF L (Map.empty(f \<mapsto> PStr s))) =
        Inr (''('' @ str_join '' OR '' (map (\<lambda>v. f @ '':'' @ v) [s]) @ '')'')"
    using assms b by (intro only_list_field [where AF = AF])
      (simp_all add: Query_init_apply kwargs_get_def)
  have d: "query_string D L (Query_init AF L (Map.empty(f \<mapsto> PList (map PStr vs)))) =
          Inr (''('' @ str_join '' OR '' (map (\<lambda>v. f @ '':'' @ v) vs) @ '')'')" if "vs \<noteq> []"
    using assms that inAF by (intro only_list_field [where AF = AF])
      (simp_all add: Query_init_apply kwargs_get_def)
  from a b c d show ?thesis by simp
qed

theorem list_field_normalized_and_rendered_witness:
  "set special_fields \<union> set [''author''] \<union> set [''site''] \<subseteq> set example_fields
   \<and> ''site'' \<in> set [''site''] \<and> ''site'' \<notin> set [''author'']
   \<and> ''site'' \<notin> set special_fields \<and> distinct [''site'']
   \<and> setattr [''site''] Map.empty ''site'' (PStr ''cnn.com'') ''site'' = Some (PList [PStr ''cnn.com''])
   \<and> query_string [''author''] [''site'']
        (Query_init example_fields [''site''] (Map.empty(''site'' \<mapsto> PStr ''cnn.com'')))
       = Inr ''(site:cnn.com)''
   \<and> query_string [''author''] [''site'']
        (Query_init example_fields [''site''] (Map.empty(''site'' \<mapsto> PList [PStr ''a'', PStr ''b''])))
       = Inr ''(site:a OR site:b)''"
proof -
  have h: "set special_fields \<union> set [''author''] \<union> set [''site''] \<subseteq> set example_fields"
    "''site'' \<in> set [''site'']" "''site'' \<notin> set [''author'']"
    "''site'' \<notin> set special_fields" "distinct [''site'']"
    by (auto simp: example_fields_def special_fields_def)
  from list_field_normalized_and_rendered [OF h, of Map.empty "''cnn.com''" "[''a'', ''b'']"]
  show ?thesis using h by simp
qed

subsection \<open>Unset and falsy fields\<close>

lemma unset_not_rendered: "\<not> is_set q f \<Longrightarrow> \<not> rendered q f"
  by (simp add: is_set_def rendered_def)

text \<open>
  C3. For every query whose fields hold values of their types and every field name
  \<open>f\<close>: if \<open>f\<close> is unset (its value is \<open>None\<close>), the rendered string is the join of
  the clauses of the rendered steps of the other fields, and no rendered step belongs
  to \<open>f\<close>.
\<close>

theorem unset_field_has_no_clause:
  assumes "well_typed D L q" and "\<not> is_set q f"
  shows "query_string D L q =
      Inr (str_join '' '' (map (\<lambda>(g, clause). clause (value_of q g))
             (filter (\<lambda>(g, clause). rendered q g \<and> g \<noteq> f) (spec_steps D L))))
    \<and> f \<notin> fst ` set (rendered_steps D L q)"
proof -
  have "rendered q g = (rendered q g \<and> g \<noteq> f)" for g
    using unset_not_rendered [OF assms(2)] by auto
  then have "rendered_steps D L q = filter (\<lambda>(g, clause). rendered q g \<and> g \<noteq> f) (spec_steps D L)"
    unfolding rendered_steps_def by (intro filter_cong) auto
  moreover have "f \<notin> fst ` set (rendered_steps D L q)"
    using unset_not_rendered [OF assms(2)] by (auto simp: rendered_steps_def)
  ultimately show ?thesis
    using query_string_refines [OF assms(1)] by (simp add: spec_render_def)
qed

theorem unset_field_has_no_clause_witness:
  "well_typed [''author''] [''site''] example_query
   \<and> \<not> is_set example_query ''language''
   \<and> query_string [''author''] [''site''] example_query =
       Inr (''cats '' @ [CHR 0x22] @ ''hello world'' @ [CHR 0x22] @
            '' is_first:true author:bob (site:a OR site:b)'')
   \<and> ''language'' \<notin> fst ` set (rendered_steps [''author''] [''site''] example_query)"
proof -
  have u: "\<not> is_set example_query ''language''"
    by (simp add: is_set_def value_of_def example_query_apply example_fields_def special_fields_def)
  have "str_join '' '' (map (\<lambda>(g, clause). clause (value_of example_query g))
             (filter (\<lambda>(g, clause). rendered example_query g \<and> g \<noteq> ''language'')
                (spec_steps [''author''] [''site'']))) =
       ''cats '' @ [CHR 0x22] @ ''hello world'' @ [CHR 0x22] @
            '' is_first:true author:bob (site:a OR site:b)''"
    by (simp add: spec_steps_def rendered_def value_of_def
      example_query_apply example_fields_def special_fields_def)
  with unset_field_has_no_clause [OF example_query_well_typed u] example_query_well_typed u
  show ?thesis by simp
qed

lemma getattr_falsy:
  "\<not> truthy v \<Longrightarrow> attr_truthy (q(f \<mapsto> v)) = attr_truthy (q(f \<mapsto> PNone))"
  by (rule ext) (simp add: attr_truthy_def getattr_def)

lemma append_if_falsy:
  "\<not> truthy v \<Longrightarrow> append_if (q(f \<mapsto> v)) name mk qs = append_if (q(f \<mapsto> PNone)) name mk qs"
  by (simp add: append_if_def getattr_def)

lemma filter_err_sound:
  "filter_err p xs = Inr ys \<Longrightarrow> x \<in> set ys \<Longrightarrow> p x = Inr True"
proof (induction xs arbitrary: ys)
  case Nil
  then show ?case by simp
next
  case (Cons a xs)
  then show ?case
    by (auto simp: bind_def split: sum.splits if_splits)
qed

lemma map_err_cong:
  "(\<And>x. x \<in> set xs \<Longrightarrow> f x = g x) \<Longrightarrow> map_err f xs = map_err g xs"
  by (induction xs) simp_all

lemma truthy_field_other:
  assumes "\<not> truthy v" and "attr_truthy (q(f \<mapsto> PNone)) g = Inr True"
  shows "g \<noteq> f"
  using assms by (auto simp: attr_truthy_def getattr_def)

lemma filter_map_falsy:
  assumes v: "\<not> truthy v"
    and h: "\<And>g. g \<noteq> f \<Longrightarrow> h (q(f \<mapsto> v)) g = h (q(f \<mapsto> PNone)) g"
    and k: "\<And>x. k1 x = k2 x"
  shows "bind (filter_err (attr_truthy (q(f \<mapsto> v))) fs)
           (\<lambda>ds. bind (map_err (h (q(f \<mapsto> v))) ds) k1) =
         bind (filter_err (attr_truthy (q(f \<mapsto> PNone))) fs)
           (\<lambda>ds. bind (map_err (h (q(f \<mapsto> PNone))) ds) k2)"
proof (cases "filter_err (attr_truthy (q(f \<mapsto> PNone))) fs")
  case (Inl e)
  then show ?thesis by (simp add: getattr_falsy [OF v])
next
  case (Inr ds)
  have "h (q(f \<mapsto> v)) g = h (q(f \<mapsto> PNone)) g" if "g \<in> set ds" for g
  proof -
    from filter_err_sound [OF Inr that] have "attr_truthy (q(f \<mapsto> PNone)) g = Inr True" .
    from truthy_field_other [OF v this] show ?thesis by (rule h)
  qed
  then have "map_err (h (q(f \<mapsto> v))) ds = map_err (h (q(f \<mapsto> PNone))) ds"
    by (rule map_err_cong)
  moreover have "k1 = k2" using k by (rule ext)
  ultimately show ?thesis
    using Inr by (simp add: getattr_falsy [OF v])
qed

lemma direct_string_other:
  "g \<noteq> f \<Longrightarrow> direct_string (q(f \<mapsto> v)) g = direct_string (q(f \<mapsto> w)) g"
  by (simp add: direct_string_def getattr_def)

lemma list_string_other:
  "g \<noteq> f \<Longrightarrow> list_string (q(f \<mapsto> v)) g = list_string (q(f \<mapsto> w)) g"
  by (simp add: list_string_def getattr_def)

text \<open>The last two statements of \<open>query_string\<close> and the final join, as a function of
  the clauses collected so far.\<close>

definition table_part :: "string list \<Rightarrow> string list \<Rightarrow> query \<Rightarrow> pyval list \<Rightarrow> error + string" where
  "table_part DIRECT_FIELDS LIST_FIELDS q qs =
     bind (filter_err (attr_truthy q) DIRECT_FIELDS) (\<lambda>ds.
     bind (map_err (direct_string q) ds) (\<lambda>dstrs.
     bind (filter_err (attr_truthy q) LIST_FIELDS) (\<lambda>ls.
     bind (map_err (list_string q) ls) (\<lambda>lstrs.
       py_join '' '' (qs @ map PStr dstrs @ map PStr lstrs)))))"

lemma table_part_falsy:
  assumes v: "\<not> truthy v"
  shows "table_part D L (q(f \<mapsto> v)) qs = table_part D L (q(f \<mapsto> PNone)) qs"
  unfolding table_part_def
proof (rule filter_map_falsy [where h = direct_string and q = q and f = f, OF v])
  fix g assume "g \<noteq> f"
  then show "direct_string (q(f \<mapsto> v)) g = direct_string (q(f \<mapsto> PNone)) g"
    by (rule direct_string_other)
next
  fix dstrs
  show "bind (filter_err (attr_truthy (q(f \<mapsto> v))) L)
          (\<lambda>ls. bind (map_err (list_string (q(f \<mapsto> v))) ls)
             (\<lambda>lstrs. py_join '' '' (qs @ map PStr dstrs @ map PStr lstrs))) =
        bind (filter_err (attr_truthy (q(f \<mapsto> PNone))) L)
          (\<lambda>ls. bind (map_err (list_string (q(f \<mapsto> PNone))) ls)
             (\<lambda>lstrs. py_join '' '' (qs @ map PStr dstrs @ map PStr lstrs)))"
  proof (rule filter_map_falsy [where h = list_string and q = q and f = f, OF v])
    fix g assume "g \<noteq> f"
    then show "list_string (q(f \<mapsto> v)) g = list_string (q(f \<mapsto> PNone)) g"
      by (rule list_string_other)
  qed simp
qed


lemma query_string_table_part:
  "query_string D L q =
     bind (append_if q ''all_terms'' (\<lambda>v. Inr v) []) (\<lambda>qs.
     bind (append_if q ''exact_phrase''
             (\<lambda>v. Inr (PStr ([CHR 0x22] @ py_str v @ [CHR 0x22]))) qs) (\<lambda>qs.
     bind (append_if q ''some_terms''
             (\<lambda>v. bind (replace_spaces v) (\<lambda>s. Inr (PStr (''('' @ s @ '')'')))) qs) (\<lambda>qs.
     bind (append_if q ''exclude'' (\<lambda>v. Inr (PStr (''-'' @ py_str v))) qs) (\<lambda>qs.
     bind (append_if q ''is_first'' (\<lambda>v. Inr (PStr ''is_first:true'')) qs) (\<lambda>qs.
     bind (append_if q ''thread_title''
             (\<lambda>v. Inr (PStr (''thread.title:('' @ py_str v @ '')''))) qs) (\<lambda>qs.
     bind (append_if q ''thread_section_title''
             (\<lambda>v. Inr (PStr (''thread.section_title:('' @ py_str v @ '')''))) qs) (\<lambda>qs.
     bind (append_if q ''language''
             (\<lambda>v. Inr (PStr (''language:('' @ py_str v @ '')''))) qs) (\<lambda>qs.
     bind (append_if q ''thread_country''
             (\<lambda>v. Inr (PStr (''thread.country:'' @ py_str v))) qs) (\<lambda>qs.
       table_part D L q qs)))))))))"
  unfolding query_string_def table_part_def by (rule refl)



lemma query_string_falsy:
  assumes v: "\<not> truthy v"
  shows "query_string D L (q(f \<mapsto> v)) = query_string D L (q(f \<mapsto> PNone))"
  apply (simp only: query_string_table_part)
  apply (simp only: table_part_falsy [OF v])
  apply (subst append_if_falsy [OF v])
  apply (subst append_if_falsy [OF v])
  apply (subst append_if_falsy [OF v])
  apply (subst append_if_falsy [OF v])
  apply (subst append_if_falsy [OF v])
  apply (subst append_if_falsy [OF v])
  apply (subst append_if_falsy [OF v])
  apply (subst append_if_falsy [OF v])
  apply (subst append_if_falsy [OF v])
  apply (rule refl)
  done

text \<open>
  C10. Assigning a falsy value to a field (the empty string to a field that is not a
  list field, \<open>False\<close>, the empty list) gives the same rendering as assigning \<open>None\<close>:
  the field contributes no clause; in particular an empty list field does not render
  \<open>()\<close>. (The empty string assigned to a list field is stored as the one-element list
  of the empty string, which is not falsy, hence the second hypothesis.)
\<close>

theorem falsy_value_renders_as_unset:
  assumes "\<not> truthy v" and "f \<in> set L \<longrightarrow> \<not> is_basestring v"
  shows "query_string D L (setattr L q f v) = query_string D L (setattr L q f PNone)"
proof -
  from assms(2) have "setattr L q f v = q(f \<mapsto> v)"
    by (auto simp: setattr_def)
  moreover have "setattr L q f PNone = q(f \<mapsto> PNone)"
    by (simp add: setattr_def)
  ultimately show ?thesis
    using query_string_falsy [OF assms(1), of D L q f] by simp
qed

lemma example_query_unset_render:
  assumes "f = ''site'' \<or> f = ''all_terms'' \<or> f = ''is_first''"
  shows "query_string [''author''] [''site''] (setattr [''site''] example_query f PNone) =
     Inr (spec_render [''author''] [''site''] (example_query(f \<mapsto> PNone)))"
proof -
  have "well_typed [''author''] [''site''] (example_query(f \<mapsto> PNone))"
    using assms
    by (auto simp: well_typed_def example_query_apply example_fields_def special_fields_def)
  from query_string_refines [OF this] show ?thesis
    by (simp add: setattr_def)
qed

theorem falsy_value_renders_as_unset_witness:
  "\<not> truthy (PList []) \<and> \<not> truthy (PStr []) \<and> \<not> truthy (PBool False)
   \<and> query_string [''author''] [''site''] (setattr [''site''] example_query ''site'' (PList [])) =
       Inr (''cats '' @ [CHR 0x22] @ ''hello world'' @ [CHR 0x22] @ '' is_first:true author:bob'')
   \<and> query_string [''author''] [''site''] (setattr [''site''] example_query ''all_terms'' (PStr [])) =
       Inr ([CHR 0x22] @ ''hello world'' @ [CHR 0x22] @ '' is_first:true author:bob (site:a OR site:b)'')
   \<and> query_string [''author''] [''site''] (setattr [''site''] example_query ''is_first'' (PBool False)) =
       Inr (''cats '' @ [CHR 0x22] @ ''hello world'' @ [CHR 0x22] @ '' author:bob (site:a OR site:b)'')"
proof -
  have r1: "spec_render [''author''] [''site''] (example_query(''site'' \<mapsto> PNone)) =
      ''cats '' @ [CHR 0x22] @ ''hello world'' @ [CHR 0x22] @ '' is_first:true author:bob''"
    by (simp add: spec_render_def rendered_steps_def spec_steps_def rendered_def value_of_def
      example_query_apply example_fields_def special_fields_def)
  have r2: "spec_render [''author''] [''site''] (example_query(''all_terms'' \<mapsto> PNone)) =
      [CHR 0x22] @ ''hello world'' @ [CHR 0x22] @ '' is_first:true author:bob (site:a OR site:b)''"
    by (simp add: spec_render_def rendered_steps_def spec_steps_def rendered_def value_of_def
      example_query_apply example_fields_def special_fields_def)
  have r3: "spec_render [''author''] [''site''] (example_query(''is_first'' \<mapsto> PNone)) =
      ''cats '' @ [CHR 0x22] @ ''hello world'' @ [CHR 0x22] @ '' author:bob (site:a OR site:b)''"
    by (simp add: spec_render_def rendered_steps_def spec_steps_def rendered_def value_of_def
      example_query_apply example_fields_def special_fields_def)
  have a: "query_string [''author''] [''site''] (setattr [''site''] example_query ''site'' (PList [])) =
      query_string [''author''] [''site''] (setattr [''site''] example_query ''site'' PNone)"
    by (rule falsy_value_renders_as_unset) simp_all
  have b: "query_string [''author''] [''site''] (setattr [''site''] example_query ''all_terms'' (PStr [])) =
      query_string [''author''] [''site''] (setattr [''site''] example_query ''all_terms'' PNone)"
    by (rule falsy_value_renders_as_unset) simp_all
  have c: "query_string [''author''] [''site''] (setattr [''site''] example_query ''is_first'' (PBool False)) =
      query_string [''author''] [''site''] (setattr [''site''] example_query ''is_first'' PNone)"
    by (rule falsy_value_renders_as_unset) simp_all
  have a': "query_string [''author''] [''site''] (setattr [''site''] example_query ''site'' PNone) =
      Inr (spec_render [''author''] [''site''] (example_query(''site'' \<mapsto> PNone)))"
    by (rule example_query_unset_render) simp
  have b': "query_string [''author''] [''site''] (setattr [''site''] example_query ''all_terms'' PNone) =
      Inr (spec_render [''author''] [''site''] (example_query(''all_terms'' \<mapsto> PNone)))"
    by (rule example_query_unset_render) simp
  have c': "query_string [''author''] [''site''] (setattr [''site''] example_query ''is_first'' PNone) =
      Inr (spec_render [''author''] [''site''] (example_query(''is_first'' \<mapsto> PNone)))"
    by (rule example_query_unset_render) simp
  show ?thesis
    by (simp only: a b c a' b' c' r1 r2 r3) simp
qed

subsection \<open>HTTP responses, JSON and the library calls\<close>

text \<open>A decoded JSON value. \<open>JObj\<close> holds the items of the decoded dictionary (its keys
  are distinct); numbers are integers.\<close>

datatype json = JNull | JBool bool | JNum int | JStr string | JArr "json list"
  | JObj "(string \<times> json) list"

text \<open>The raw result of \<open>requests\<close>: \<open>json_body\<close> is what \<open>response.json()\<close> decodes,
  \<open>None\<close> when the body is not JSON (the call then raises \<open>ValueError\<close>).\<close>

record http_response =
  url :: string
  status_code :: int
  resp_text :: string
  json_body :: "json option"

text \<open>The calls that leave the module are parameters of the model: \<open>http_get\<close> is
  \<open>requests.Session.get(url, params=...)\<close> (the remote service, \<open>Inl\<close> for an exception of
  the HTTP layer; a parameter whose value is \<open>None\<close> is Python's \<open>None\<close>), \<open>urljoin\<close> is
  \<open>urljoin(base, url)\<close> and \<open>url_params\<close> is \<open>parse_qs(urlparse(url).query)\<close>. They
  receive the Python value the code passes (the URL of \<open>http_get\<close> is \<open>self.next\<close>, the
  other two get whatever the page holds under \<open>next\<close>), so they take a JSON value and
  may raise (\<open>Inl\<close>, with the exception's name).\<close>

record world =
  http_get :: "json \<Rightarrow> (string \<rightharpoonup> string option) \<Rightarrow> string + http_response"
  urljoin :: "string \<Rightarrow> json \<Rightarrow> string + string"
  url_params :: "json \<Rightarrow> string + (string \<rightharpoonup> string list)"

definition library :: "string + 'a \<Rightarrow> error + 'a" where
  "library r = (case r of Inl msg \<Rightarrow> Inl (LibraryError msg) | Inr x \<Rightarrow> Inr x)"

text \<open>What the two URL functions do with a value that is not a URL decides how the
  construction of a \<open>Response\<close> ends on a page whose \<open>next\<close> is \<open>null\<close>, so their first
  statements (module \<open>urlparse\<close> of Python 2.7) are part of the model. \<open>urljoin(base,
  url)\<close> starts with \<open>if not base: return url\<close> and \<open>if not url: return base\<close>, before it
  looks into either argument: only a non-empty base and a true \<open>url\<close> reach the
  parameter \<open>urljoin\<close>. \<open>urlparse(url)\<close> reads \<open>url.find(':')\<close>, which on \<open>None\<close> is an
  \<open>AttributeError\<close>: only a value other than \<open>None\<close> reaches the parameter \<open>url_params\<close>.\<close>

fun json_truthy :: "json \<Rightarrow> bool" where
  "json_truthy JNull = False"
| "json_truthy (JBool b) = b"
| "json_truthy (JNum n) = (n \<noteq> 0)"
| "json_truthy (JStr s) = (s \<noteq> [])"
| "json_truthy (JArr xs) = (xs \<noteq> [])"
| "json_truthy (JObj kvs) = (kvs \<noteq> [])"

definition py_urljoin :: "world \<Rightarrow> string \<Rightarrow> json \<Rightarrow> error + json" where
  "py_urljoin w base u =
     (if base = [] then Inr u
      else if \<not> json_truthy u then Inr (JStr base)
      else bind (library (urljoin w base u)) (\<lambda>joined. Inr (JStr joined)))"

definition parse_qs_urlparse :: "world \<Rightarrow> json \<Rightarrow> error + (string \<rightharpoonup> string list)" where
  "parse_qs_urlparse w u =
     (case u of JNull \<Rightarrow> Inl AttributeError | _ \<Rightarrow> library (url_params w u))"

text \<open>\<open>response.json()[key]\<close>.\<close>

definition response_json :: "http_response \<Rightarrow> error + json" where
  "response_json r = (case json_body r of None \<Rightarrow> Inl ValueError | Some j \<Rightarrow> Inr j)"

fun json_item :: "json \<Rightarrow> string \<Rightarrow> error + json" where
  "json_item (JObj kvs) key =
     (case map_of kvs key of None \<Rightarrow> Inl (KeyError key) | Some v \<Rightarrow> Inr v)"
| "json_item j key = Inl TypeError"

definition json_field :: "http_response \<Rightarrow> string \<Rightarrow> error + json" where
  "json_field r key = bind (response_json r) (\<lambda>j. json_item j key)"

text \<open>Iterating a decoded value: a list gives its items, a string its characters, a
  dictionary its keys; the other values are not iterable.\<close>

fun json_iter :: "json \<Rightarrow> error + json list" where
  "json_iter (JArr xs) = Inr xs"
| "json_iter (JStr s) = Inr (map (\<lambda>c. JStr [c]) s)"
| "json_iter (JObj kvs) = Inr (map (\<lambda>kv. JStr (fst kv)) kvs)"
| "json_iter j = Inl TypeError"

text \<open>\<open>x == 0\<close> on a decoded value: the number zero, and \<open>False\<close> (Python's \<open>False == 0\<close>).\<close>

fun py_eq_zero :: "json \<Rightarrow> bool" where
  "py_eq_zero (JNum n) = (n = 0)"
| "py_eq_zero (JBool b) = (\<not> b)"
| "py_eq_zero j = False"

subsection \<open>Session, Post and Response\<close>

record session =
  token :: "string option"

text \<open>A \<open>Post\<close> object is its instance dictionary.\<close>

datatype post = PostObj "(string \<times> json) list"

text \<open>\<open>Response.__init__\<close> calls \<open>Post(post)\<close> with the decoded object as a positional
  argument, while \<open>Post.__init__(self, **post)\<close> accepts keyword arguments only: the call
  raises \<open>TypeError\<close> before the body of \<open>Post.__init__\<close> runs.\<close>

definition Post_call :: "json \<Rightarrow> error + post" where
  "Post_call p = Inl TypeError"

text \<open>The attribute \<open>more\<close> is the field \<open>more_available\<close>, \<open>next\<close> is \<open>next_url\<close> (the
  source's names are reserved words here), and \<open>response.text\<close> is \<open>resp_text\<close>. The
  attribute \<open>next\<close> holds what \<open>urljoin\<close> returned, a Python value.\<close>

record Response =
  response :: http_response
  session :: session
  total :: json
  next_url :: json
  next_ts :: string
  left :: json
  more_available :: json
  posts :: "post list"

text \<open>\<open>Response.extract_next_ts\<close>: \<open>params['ts'][0]\<close>.\<close>

definition extract_next_ts :: "world \<Rightarrow> http_response \<Rightarrow> error + string" where
  "extract_next_ts w r =
     bind (json_field r ''next'') (\<lambda>resource.
     bind (parse_qs_urlparse w resource) (\<lambda>params.
       case params ''ts'' of
         None \<Rightarrow> Inl (KeyError ''ts'')
       | Some [] \<Rightarrow> Inl IndexError
       | Some (t # ts) \<Rightarrow> Inr t))"

text \<open>\<open>Response.__init__\<close>, statement by statement.\<close>

definition Response_init :: "world \<Rightarrow> http_response \<Rightarrow> session \<Rightarrow> error + Response" where
  "Response_init w r s =
     bind (json_field r ''totalResults'') (\<lambda>tot.
     bind (json_field r ''next'') (\<lambda>n.
     bind (py_urljoin w (url r) n) (\<lambda>nxt.
     bind (extract_next_ts w r) (\<lambda>ts.
     bind (json_field r ''requestsLeft'') (\<lambda>lft.
     bind (json_field r ''moreResultsAvailable'') (\<lambda>mr.
     bind (json_field r ''posts'') (\<lambda>ps.
     bind (json_iter ps) (\<lambda>items.
     bind (map_err Post_call items) (\<lambda>psts.
       Inr \<lparr>response = r, session = s, total = tot, next_url = nxt, next_ts = ts,
            left = lft, more_available = mr, posts = psts\<rparr>)))))))))"

text \<open>\<open>Session.get\<close> and \<open>Response.get_next\<close>.\<close>

definition Session_get :: "world \<Rightarrow> session \<Rightarrow> json \<Rightarrow> error + Response" where
  "Session_get w s u = bind (library (http_get w u Map.empty)) (\<lambda>r. Response_init w r s)"

definition get_next :: "world \<Rightarrow> Response \<Rightarrow> error + Response" where
  "get_next w R = Session_get w (session R) (next_url R)"

text \<open>\<open>Session.search\<close>. The query is a \<open>Query\<close> object or a raw string; \<open>token or
  self.token\<close> is the first operand when it is true (a non-empty string), the second
  otherwise; \<open>since\<close> is added when it is true.\<close>

datatype query_arg = QueryObj query | RawQuery string

definition py_or :: "string option \<Rightarrow> string option \<Rightarrow> string option" where
  "py_or a b = (case a of None \<Rightarrow> b | Some t \<Rightarrow> if t \<noteq> [] then Some t else b)"

definition search_params ::
  "string \<Rightarrow> string option \<Rightarrow> string option \<Rightarrow> (string \<rightharpoonup> string option)" where
  "search_params q tok since =
     (let params = [''q'' \<mapsto> Some q, ''token'' \<mapsto> tok]
      in case since of
           None \<Rightarrow> params
         | Some ts \<Rightarrow> if ts \<noteq> [] then params(''ts'' \<mapsto> Some ts) else params)"

text \<open>The request that \<open>search\<close> sends: the lines before the HTTP call.\<close>

definition search_request ::
  "string list \<Rightarrow> string list \<Rightarrow> session \<Rightarrow> query_arg \<Rightarrow> string option \<Rightarrow> string option
    \<Rightarrow> error + (string \<rightharpoonup> string option)" where
  "search_request DIRECT_FIELDS LIST_FIELDS s query tok since =
     (if tok = None \<and> token s = None
      then Inl (TokenMissingException ''No token defined for webhose API request'')
      else bind (case query of
                   QueryObj q \<Rightarrow> query_string DIRECT_FIELDS LIST_FIELDS q
                 | RawQuery raw \<Rightarrow> Inr raw) (\<lambda>qstr.
             Inr (search_params qstr (py_or tok (token s)) since)))"

definition search ::
  "world \<Rightarrow> string list \<Rightarrow> string list \<Rightarrow> session \<Rightarrow> query_arg \<Rightarrow> string option
    \<Rightarrow> string option \<Rightarrow> error + Response" where
  "search w DIRECT_FIELDS LIST_FIELDS s query tok since =
     bind (search_request DIRECT_FIELDS LIST_FIELDS s query tok since) (\<lambda>params.
     bind (library (http_get w (JStr ''http://webhose.io/search'') params)) (\<lambda>r.
       if status_code r \<noteq> 200 then Inl (Exception (resp_text r))
       else Response_init w r s))"

subsection \<open>The pagination iterator\<close>

text \<open>Lines 101 to 106 of \<open>Response.__iter__\<close>: the assignments to \<open>self\<close> after a fetch.\<close>

definition advance :: "Response \<Rightarrow> Response \<Rightarrow> Response" where
  "advance self new =
     self\<lparr>total := total new, next_url := next_url new, left := left new,
          more_available := more_available new, posts := posts new, next_ts := next_ts new\<rparr>"

text \<open>One run of the generator, to its end: the posts it yields in order, the URLs it
  fetches, the final state of \<open>self\<close> and how the run ends. The loop may go on for
  as long as the service reports more results, so the run takes fuel: one unit per
  page. \<open>resp\<close> is the local variable \<open>response\<close>, which starts as \<open>self\<close>.\<close>

datatype ending = Exhausted | Raised error | OutOfFuel

record run =
  yielded :: "post list"
  fetched :: "json list"
  self_final :: Response
  ending :: ending

fun iter_loop :: "nat \<Rightarrow> world \<Rightarrow> Response \<Rightarrow> Response \<Rightarrow> run" where
  "iter_loop 0 w self resp =
     \<lparr>yielded = [], fetched = [], self_final = self, ending = OutOfFuel\<rparr>"
| "iter_loop (Suc n) w self resp =
     (if py_eq_zero (more_available resp)
      then \<lparr>yielded = posts resp, fetched = [], self_final = self, ending = Exhausted\<rparr>
      else case get_next w resp of
          Inl e \<Rightarrow> \<lparr>yielded = posts resp, fetched = [next_url resp], self_final = self,
                    ending = Raised e\<rparr>
        | Inr new \<Rightarrow>
            (let rest = iter_loop n w (advance self new) new
             in rest\<lparr>yielded := posts resp @ yielded rest,
                     fetched := next_url resp # fetched rest\<rparr>))"

definition Response_iter :: "nat \<Rightarrow> world \<Rightarrow> Response \<Rightarrow> run" where
  "Response_iter fuel w self = iter_loop fuel w self self"

subsection \<open>Session.search: the token\<close>

text \<open>\<open>token_missing m\<close>: the outcome \<open>m\<close> is the exception \<open>TokenMissingException\<close>.\<close>

definition token_missing :: "error + 'a \<Rightarrow> bool" where
  "token_missing m = (case m of Inl (TokenMissingException msg) \<Rightarrow> True | _ \<Rightarrow> False)"

lemma tm_Inr [simp]: "\<not> token_missing (Inr x)"
  by (simp add: token_missing_def)

lemma tm_Inl [simp]: "token_missing (Inl e) = (\<exists>msg. e = TokenMissingException msg)"
  by (cases e) (simp_all add: token_missing_def)

lemma tm_bind:
  "\<not> token_missing m \<Longrightarrow> (\<And>x. \<not> token_missing (f x)) \<Longrightarrow> \<not> token_missing (bind m f)"
  by (cases m) simp_all

lemma tm_map_err: "(\<And>x. \<not> token_missing (f x)) \<Longrightarrow> \<not> token_missing (map_err f xs)"
  by (induction xs) (simp_all add: tm_bind)

lemma tm_filter_err: "(\<And>x. \<not> token_missing (p x)) \<Longrightarrow> \<not> token_missing (filter_err p xs)"
  by (induction xs) (simp_all add: tm_bind)

lemma tm_getattr: "\<not> token_missing (getattr q name)"
  by (simp add: getattr_def split: option.splits)

lemma tm_append_if:
  "(\<And>v. \<not> token_missing (mk v)) \<Longrightarrow> \<not> token_missing (append_if q name mk qs)"
  unfolding append_if_def by (intro tm_bind tm_getattr) (simp add: tm_bind)

lemma tm_replace_spaces: "\<not> token_missing (replace_spaces v)"
  by (cases v) simp_all

lemma tm_py_iter: "\<not> token_missing (py_iter v)"
  by (cases v) simp_all

lemma tm_the_str: "\<not> token_missing (the_str v)"
  by (cases v) simp_all

lemma tm_py_join: "\<not> token_missing (py_join sep qs)"
  unfolding py_join_def by (intro tm_bind tm_map_err tm_the_str) simp

lemma tm_attr_truthy: "\<not> token_missing (attr_truthy q name)"
  unfolding attr_truthy_def by (intro tm_bind tm_getattr) simp

lemma tm_direct_string: "\<not> token_missing (direct_string q f)"
  unfolding direct_string_def by (intro tm_bind tm_getattr) simp

lemma tm_list_string: "\<not> token_missing (list_string q f)"
  unfolding list_string_def by (intro tm_bind tm_getattr tm_py_iter) simp

lemma tm_table_part: "\<not> token_missing (table_part D L q qs)"
  unfolding table_part_def
  by (intro tm_bind tm_filter_err tm_map_err tm_attr_truthy tm_direct_string tm_list_string
      tm_py_join)

lemma tm_query_string: "\<not> token_missing (query_string D L q)"
  unfolding query_string_table_part
  apply (rule tm_bind, rule tm_append_if, simp)
  apply (rule tm_bind, rule tm_append_if, simp)
  apply (rule tm_bind, rule tm_append_if, simp add: tm_bind tm_replace_spaces)
  apply (rule tm_bind, rule tm_append_if, simp)
  apply (rule tm_bind, rule tm_append_if, simp)
  apply (rule tm_bind, rule tm_append_if, simp)
  apply (rule tm_bind, rule tm_append_if, simp)
  apply (rule tm_bind, rule tm_append_if, simp)
  apply (rule tm_bind, rule tm_append_if, simp)
  apply (rule tm_table_part)
  done

lemma tm_library: "\<not> token_missing (library r)"
  by (cases r) (simp_all add: library_def)

lemma tm_json_item: "\<not> token_missing (json_item j key)"
  by (cases j) (simp_all split: option.splits)

lemma tm_json_field: "\<not> token_missing (json_field r key)"
  unfolding json_field_def
  by (intro tm_bind tm_json_item) (simp add: response_json_def split: option.splits)

lemma tm_json_iter: "\<not> token_missing (json_iter j)"
  by (cases j) simp_all

lemma tm_py_urljoin: "\<not> token_missing (py_urljoin w base u)"
proof -
  have "\<not> token_missing (bind (library (urljoin w base u)) (\<lambda>joined. Inr (JStr joined)))"
    by (intro tm_bind tm_library) simp
  then show ?thesis
    by (simp add: py_urljoin_def)
qed

lemma tm_parse_qs_urlparse: "\<not> token_missing (parse_qs_urlparse w u)"
  by (cases u) (simp_all add: parse_qs_urlparse_def tm_library)

lemma tm_extract_next_ts: "\<not> token_missing (extract_next_ts w r)"
  unfolding extract_next_ts_def
  by (intro tm_bind tm_json_field tm_parse_qs_urlparse) (simp split: option.splits list.splits)

lemma tm_Response_init: "\<not> token_missing (Response_init w r s)"
  unfolding Response_init_def
  by (intro tm_bind tm_json_field tm_py_urljoin tm_extract_next_ts tm_json_iter tm_map_err)
    (simp_all add: Post_call_def)

lemma search_request_missing:
  "token_missing (search_request D L s query tok since) = (tok = None \<and> token s = None)"
proof (cases "tok = None \<and> token s = None")
  case True
  then show ?thesis by (simp add: search_request_def)
next
  case False
  have "\<not> token_missing (bind (case query of
                   QueryObj q \<Rightarrow> query_string D L q
                 | RawQuery raw \<Rightarrow> Inr raw) (\<lambda>qstr.
             Inr (search_params qstr (py_or tok (token s)) since)))"
    by (intro tm_bind) (simp_all add: tm_query_string split: query_arg.splits)
  with False show ?thesis by (simp add: search_request_def)
qed

lemma search_missing:
  "token_missing (search w D L s query tok since) = (tok = None \<and> token s = None)"
proof (cases "search_request D L s query tok since")
  case (Inl e)
  then have "search w D L s query tok since = Inl e"
    by (simp add: search_def)
  with Inl search_request_missing [of D L s query tok since] show ?thesis
    by simp
next
  case (Inr params)
  have "\<not> token_missing (bind (library (http_get w (JStr ''http://webhose.io/search'') params)) (\<lambda>r.
       if status_code r \<noteq> 200 then Inl (Exception (resp_text r))
       else Response_init w r s))"
    by (intro tm_bind tm_library) (simp add: tm_Response_init)
  with Inr search_request_missing [of D L s query tok since] show ?thesis
    by (simp add: search_def)
qed

lemma search_request_token:
  assumes "search_request D L s query tok since = Inr params"
  shows "params ''token'' = Some (py_or tok (token s))"
proof -
  from assms obtain qstr where "params = search_params qstr (py_or tok (token s)) since"
    by (auto simp: search_request_def bind_def split: if_splits sum.splits)
  then show ?thesis
    by (simp add: search_params_def Let_def split: option.splits)
qed

text \<open>
  C4 (as amended). \<open>search\<close> raises \<open>TokenMissingException\<close> if and only if no token is
  passed at the call and none is configured on the session (both are \<open>None\<close>). In
  the parameters of the request, a non-empty call-site token is the token sent; an
  empty call-site token (the empty string) and a missing one both give way to the
  session's token, because the code resolves the token with \<open>token or self.token\<close>.
\<close>

theorem search_token_resolution:
  "(token_missing (search w D L s query tok since) \<longleftrightarrow> tok = None \<and> token s = None)
   \<and> (search_request D L s query tok since = Inr params \<longrightarrow>
        (\<forall>t. tok = Some t \<and> t \<noteq> [] \<longrightarrow> params ''token'' = Some (Some t))
        \<and> (tok = Some [] \<or> tok = None \<longrightarrow> params ''token'' = Some (token s)))"
  by (auto simp: search_missing py_or_def dest!: search_request_token)

text \<open>The claim as stated fails for the empty string: it is passed at the call site and
  the session's token is sent.\<close>

theorem call_site_token_counterexample:
  "search_request [] [] \<lparr>token = Some ''abc''\<rparr> (RawQuery ''cats'') (Some []) None =
     Inr [''q'' \<mapsto> Some ''cats'', ''token'' \<mapsto> Some ''abc'']"
  by (simp add: search_request_def search_params_def py_or_def)


text \<open>A service that answers every request with one last page without posts, with a
  library that resolves \<open>next\<close> against the host and finds the \<open>ts\<close> parameter of the
  two \<open>next\<close> values used below.\<close>

definition example_page :: http_response where
  "example_page =
     \<lparr>url = ''http://webhose.io/search?q=cats'', status_code = 200, resp_text = ''{...}'',
      json_body = Some (JObj [(''totalResults'', JNum 7), (''next'', JStr ''/search?ts=9''),
        (''requestsLeft'', JNum 3), (''moreResultsAvailable'', JNum 0),
        (''posts'', JArr [])])\<rparr>"

definition example_world :: world where
  "example_world =
     \<lparr>http_get = (\<lambda>u params. Inr example_page),
      urljoin = (\<lambda>base n. case n of JStr u \<Rightarrow> Inr (''http://webhose.io'' @ u)
                                   | _ \<Rightarrow> Inl ''AttributeError''),
      url_params = (\<lambda>n. case n of
                           JStr u \<Rightarrow> Inr (if u = ''/search?ts=9'' then [''ts'' \<mapsto> [''9'']]
                                           else if u = ''/search?ts=5'' then [''ts'' \<mapsto> [''5'']]
                                           else Map.empty)
                         | _ \<Rightarrow> Inl ''AttributeError'')\<rparr>"

theorem search_token_resolution_witness:
  "token_missing (search example_world [] [] \<lparr>token = None\<rparr> (RawQuery ''cats'') None None)
   \<and> \<not> token_missing
        (search example_world [] [] \<lparr>token = Some ''abc''\<rparr> (RawQuery ''cats'') (Some ''k'') None)
   \<and> search_request [] [] \<lparr>token = Some ''abc''\<rparr> (RawQuery ''cats'') (Some ''k'') None =
        Inr [''q'' \<mapsto> Some ''cats'', ''token'' \<mapsto> Some ''k'']
   \<and> [''q'' \<mapsto> Some ''cats'', ''token'' \<mapsto> Some ''k''] ''token'' = Some (Some ''k'')"
proof -
  have req: "search_request [] [] \<lparr>token = Some ''abc''\<rparr> (RawQuery ''cats'') (Some ''k'') None =
        Inr [''q'' \<mapsto> Some ''cats'', ''token'' \<mapsto> Some ''k'']"
    by (simp add: search_request_def search_params_def py_or_def)
  from search_token_resolution [of example_world "[]" "[]" "\<lparr>token = None\<rparr>" "RawQuery ''cats''"
      None None]
  have a: "token_missing (search example_world [] [] \<lparr>token = None\<rparr> (RawQuery ''cats'') None None)"
    by simp
  from search_token_resolution [of example_world "[]" "[]" "\<lparr>token = Some ''abc''\<rparr>"
      "RawQuery ''cats''" "Some ''k''" None "[''q'' \<mapsto> Some ''cats'', ''token'' \<mapsto> Some ''k'']"] req
  have b: "\<not> token_missing
        (search example_world [] [] \<lparr>token = Some ''abc''\<rparr> (RawQuery ''cats'') (Some ''k'') None)"
    and c: "[''q'' \<mapsto> Some ''cats'', ''token'' \<mapsto> Some ''k''] ''token'' = Some (Some ''k'')"
    by simp_all
  from a b c req show ?thesis by blast
qed

subsection \<open>Session.search: the status code\<close>

text \<open>A status other than 200 raises the generic \<open>Exception\<close> with the body text, for
  every request that is sent and answered.\<close>

lemma search_non_200:
  assumes "search_request D L s query tok since = Inr params"
    and "http_get w (JStr ''http://webhose.io/search'') params = Inr r"
    and "status_code r \<noteq> 200"
  shows "search w D L s query tok since = Inl (Exception (resp_text r))"
  using assms by (simp add: search_def library_def)

text \<open>With status 200, \<open>search\<close> is the construction of the \<open>Response\<close>.\<close>

lemma search_200:
  assumes "search_request D L s query tok since = Inr params"
    and "http_get w (JStr ''http://webhose.io/search'') params = Inr r"
    and "status_code r = 200"
  shows "search w D L s query tok since = Response_init w r s"
  using assms by (simp add: search_def library_def)

text \<open>The loop over the posts of a page: every call \<open>Post(post)\<close> raises, so the loop
  passes on a page without posts only, and a \<open>Response\<close> that was constructed holds
  no post.\<close>

lemma map_err_Post_call:
  "map_err Post_call items = (if items = [] then Inr [] else Inl TypeError)"
  by (cases items) (simp_all add: Post_call_def)

lemma Response_init_fields:
  assumes "Response_init w r s = Inr R"
  shows "response R = r \<and> session R = s \<and> posts R = []"
  using assms
  by (auto simp: Response_init_def bind_def map_err_Post_call split: sum.splits if_splits)

lemma Response_init_with_posts:
  assumes "json_field r ''totalResults'' = Inr tot" and "json_field r ''next'' = Inr n"
    and "py_urljoin w (url r) n = Inr nxt" and "extract_next_ts w r = Inr ts"
    and "json_field r ''requestsLeft'' = Inr lft"
    and "json_field r ''moreResultsAvailable'' = Inr mr"
    and "json_field r ''posts'' = Inr (JArr (p # ps))"
  shows "Response_init w r s = Inl TypeError"
  using assms
  by (simp add: Response_init_def map_err_Post_call)

text \<open>A post as the service sends it, a page of status 200 that holds it, and a page
  of status 401.\<close>

definition post_json :: json where
  "post_json =
     JObj [(''title'', JStr ''Cats''), (''text'', JStr ''All about cats''),
       (''published'', JStr ''2016-06-01T10:00:00.000+03:00''),
       (''crawled'', JStr ''2016-06-01T11:30:00.000+03:00''),
       (''external_links'', JArr []),
       (''entities'', JObj [(''persons'', JArr []), (''locations'', JArr []),
          (''organizations'', JArr [])]),
       (''thread'', JObj [(''title'', JStr ''Cats''), (''site_section'', JStr ''http://a.b/c''),
          (''section_title'', JStr ''Pets''), (''country'', JStr ''US''),
          (''published'', JStr ''2016-06-01T10:00:00.000+03:00'')])]"

definition page_with_post :: http_response where
  "page_with_post =
     \<lparr>url = ''http://webhose.io/search?q=cats'', status_code = 200, resp_text = ''{...}'',
      json_body = Some (JObj [(''totalResults'', JNum 7), (''next'', JStr ''/search?ts=9''),
        (''requestsLeft'', JNum 3), (''moreResultsAvailable'', JNum 0),
        (''posts'', JArr [post_json])])\<rparr>"

definition error_page :: http_response where
  "error_page =
     \<lparr>url = ''http://webhose.io/search?q=cats'', status_code = 401,
      resp_text = ''invalid token'', json_body = None\<rparr>"

text \<open>
  C5. With a resolvable token, a status other than 200 makes \<open>search\<close> raise the generic
  \<open>Exception\<close> whose message is the body text: on the page of status 401 it does. With
  status 200 the raw result is to be returned wrapped in a \<open>Response\<close>: on the
  well-formed page that holds one post \<open>search\<close> raises \<open>TypeError\<close> instead, because
  \<open>Response.__init__\<close> calls \<open>Post(post)\<close> with a positional argument (line 82) and
  \<open>Post.__init__(self, **post)\<close> accepts keywords only (line 126). The same page
  without the post is returned wrapped.
\<close>

theorem search_page_with_post_raises:
  "status_code page_with_post = 200
   \<and> search (example_world\<lparr>http_get := (\<lambda>u params. Inr page_with_post)\<rparr>) [] []
        \<lparr>token = Some ''abc''\<rparr> (RawQuery ''cats'') None None = Inl TypeError
   \<and> search example_world [] [] \<lparr>token = Some ''abc''\<rparr> (RawQuery ''cats'') None None =
       Inr \<lparr>response = example_page, session = \<lparr>token = Some ''abc''\<rparr>, total = JNum 7,
            next_url = JStr ''http://webhose.io/search?ts=9'', next_ts = ''9'', left = JNum 3,
            more_available = JNum 0, posts = []\<rparr>
   \<and> search (example_world\<lparr>http_get := (\<lambda>u params. Inr error_page)\<rparr>) [] []
        \<lparr>token = Some ''abc''\<rparr> (RawQuery ''cats'') None None = Inl (Exception ''invalid token'')"
proof -
  have req: "search_request [] [] \<lparr>token = Some ''abc''\<rparr> (RawQuery ''cats'') None None =
      Inr [''q'' \<mapsto> Some ''cats'', ''token'' \<mapsto> Some ''abc'']"
    by (simp add: search_request_def search_params_def py_or_def)
  have a: "Response_init (example_world\<lparr>http_get := (\<lambda>u params. Inr page_with_post)\<rparr>)
      page_with_post \<lparr>token = Some ''abc''\<rparr> = Inl TypeError"
    by (simp add: Response_init_def json_field_def response_json_def extract_next_ts_def
        py_urljoin_def parse_qs_urlparse_def library_def example_world_def page_with_post_def
        Post_call_def)
  have b: "Response_init example_world example_page \<lparr>token = Some ''abc''\<rparr> =
       Inr \<lparr>response = example_page, session = \<lparr>token = Some ''abc''\<rparr>, total = JNum 7,
            next_url = JStr ''http://webhose.io/search?ts=9'', next_ts = ''9'', left = JNum 3,
            more_available = JNum 0, posts = []\<rparr>"
    by (simp add: Response_init_def json_field_def response_json_def extract_next_ts_def
        py_urljoin_def parse_qs_urlparse_def library_def example_world_def example_page_def)
  have s1: "status_code page_with_post = 200"
    by (simp add: page_with_post_def)
  have s2: "status_code example_page = 200"
    by (simp add: example_page_def)
  have s3: "status_code error_page \<noteq> 200" "resp_text error_page = ''invalid token''"
    by (simp_all add: error_page_def)
  have g2: "http_get example_world (JStr ''http://webhose.io/search'')
      [''q'' \<mapsto> Some ''cats'', ''token'' \<mapsto> Some ''abc''] = Inr example_page"
    by (simp add: example_world_def)
  from search_200 [OF req _ s1, of "example_world\<lparr>http_get := (\<lambda>u params. Inr page_with_post)\<rparr>"] a
  have c1: "search (example_world\<lparr>http_get := (\<lambda>u params. Inr page_with_post)\<rparr>) [] []
        \<lparr>token = Some ''abc''\<rparr> (RawQuery ''cats'') None None = Inl TypeError"
    by simp
  from search_200 [OF req g2 s2] b
  have c2: "search example_world [] [] \<lparr>token = Some ''abc''\<rparr> (RawQuery ''cats'') None None =
       Inr \<lparr>response = example_page, session = \<lparr>token = Some ''abc''\<rparr>, total = JNum 7,
            next_url = JStr ''http://webhose.io/search?ts=9'', next_ts = ''9'', left = JNum 3,
            more_available = JNum 0, posts = []\<rparr>"
    by simp
  from search_non_200 [OF req _ s3(1), of "example_world\<lparr>http_get := (\<lambda>u params. Inr error_page)\<rparr>"] s3(2)
  have c3: "search (example_world\<lparr>http_get := (\<lambda>u params. Inr error_page)\<rparr>) [] []
        \<lparr>token = Some ''abc''\<rparr> (RawQuery ''cats'') None None = Inl (Exception ''invalid token'')"
    by simp
  from s1 c1 c2 c3 show ?thesis by simp
qed

subsection \<open>Iterating a Response\<close>

text \<open>
  C6. Iterating a \<open>Response\<close> whose page reports \<open>more == 0\<close> yields exactly its posts, in
  order, fetches nothing, leaves the object as it is and ends: with any fuel of at
  least one page the run is exhausted at once.
\<close>

theorem last_page_iteration_stops:
  assumes "py_eq_zero (more_available self)"
  shows "Response_iter (Suc n) w self =
    \<lparr>yielded = posts self, fetched = [], self_final = self, ending = Exhausted\<rparr>"
  using assms by (simp add: Response_iter_def)

definition last_page :: Response where
  "last_page =
     \<lparr>response = example_page, session = \<lparr>token = Some ''abc''\<rparr>, total = JNum 7,
      next_url = JStr ''http://webhose.io/search?ts=9'', next_ts = ''9'', left = JNum 3,
      more_available = JNum 0,
      posts = [PostObj [(''title'', JStr ''first'')], PostObj [(''title'', JStr ''second'')]]\<rparr>"

theorem last_page_iteration_stops_witness:
  "py_eq_zero (more_available last_page)
   \<and> Response_iter (Suc 0) example_world last_page =
       \<lparr>yielded = [PostObj [(''title'', JStr ''first'')], PostObj [(''title'', JStr ''second'')]],
        fetched = [], self_final = last_page, ending = Exhausted\<rparr>"
proof -
  have h: "py_eq_zero (more_available last_page)"
    by (simp add: last_page_def)
  from last_page_iteration_stops [OF h, of 0 example_world] h show ?thesis
    by (simp add: last_page_def)
qed

text \<open>One turn of the loop on a page that reports more results: the GET of the URL in
  \<open>next\<close> with the session of the page at hand, the construction of a \<open>Response\<close> from
  what it returns, and the assignments to \<open>self\<close> when the construction succeeds. An
  exception of either step ends the run with \<open>self\<close> as it was.\<close>

lemma iter_loop_step:
  assumes "\<not> py_eq_zero (more_available resp)"
  shows "iter_loop (Suc n) w self resp =
    (case http_get w (next_url resp) Map.empty of
       Inl msg \<Rightarrow> \<lparr>yielded = posts resp, fetched = [next_url resp], self_final = self,
                    ending = Raised (LibraryError msg)\<rparr>
     | Inr raw \<Rightarrow>
         (case Response_init w raw (session resp) of
            Inl e \<Rightarrow> \<lparr>yielded = posts resp, fetched = [next_url resp], self_final = self,
                       ending = Raised e\<rparr>
          | Inr new \<Rightarrow>
              (let rest = iter_loop n w (advance self new) new
               in rest\<lparr>yielded := posts resp @ yielded rest,
                       fetched := next_url resp # fetched rest\<rparr>)))"
  using assms
  by (simp add: get_next_def Session_get_def library_def split: sum.splits)

lemma advance_fields:
  "advance self new =
     \<lparr>response = response self, session = session self, total = total new,
      next_url = next_url new, next_ts = next_ts new, left = left new,
      more_available = more_available new, posts = posts new\<rparr>"
  by (simp add: advance_def)

lemma iter_loop_frame:
  "response (self_final (iter_loop k w self resp)) = response self
   \<and> session (self_final (iter_loop k w self resp)) = session self"
proof (induction k arbitrary: self resp)
  case 0
  show ?case by simp
next
  case (Suc k)
  show ?case
  proof (cases "py_eq_zero (more_available resp)")
    case True
    then show ?thesis by simp
  next
    case False
    show ?thesis
    proof (cases "get_next w resp")
      case (Inl e)
      with False show ?thesis by simp
    next
      case (Inr new)
      with False Suc.IH [of "advance self new" new] show ?thesis
        by (simp add: Let_def advance_fields)
    qed
  qed
qed

text \<open>A service with two pages: the search answers with a first page that reports
  more results, and the URL in its \<open>next\<close> answers with the second page, the last one;
  any other URL is refused.\<close>

definition page_one :: http_response where
  "page_one =
     \<lparr>url = ''http://webhose.io/search?q=cats'', status_code = 200, resp_text = ''{...}'',
      json_body = Some (JObj [(''totalResults'', JNum 9), (''next'', JStr ''/search?ts=5''),
        (''requestsLeft'', JNum 4), (''moreResultsAvailable'', JNum 1),
        (''posts'', JArr [])])\<rparr>"

definition two_pages :: "http_response \<Rightarrow> world" where
  "two_pages second =
     example_world\<lparr>http_get := (\<lambda>u params.
       if u = JStr ''http://webhose.io/search'' then Inr page_one
       else if u = JStr ''http://webhose.io/search?ts=5'' then Inr second
       else Inl ''ConnectionError'')\<rparr>"

definition first_page :: Response where
  "first_page =
     \<lparr>response = page_one, session = \<lparr>token = Some ''abc''\<rparr>, total = JNum 9,
      next_url = JStr ''http://webhose.io/search?ts=5'', next_ts = ''5'', left = JNum 4,
      more_available = JNum 1, posts = []\<rparr>"

lemma first_page_searched:
  "search (two_pages second) [] [] \<lparr>token = Some ''abc''\<rparr> (RawQuery ''cats'') None None =
     Inr first_page"
  by (simp add: search_def search_request_def search_params_def py_or_def library_def
      two_pages_def example_world_def page_one_def first_page_def Response_init_def
      json_field_def response_json_def extract_next_ts_def py_urljoin_def
      parse_qs_urlparse_def)

text \<open>
  C8. When the page at hand reports more results, the loop fetches the URL in \<open>next\<close>
  and is to overwrite \<open>total\<close>, \<open>next\<close>, \<open>next_ts\<close>, \<open>left\<close>, \<open>more\<close> and \<open>posts\<close> of \<open>self\<close>
  with the new page's values. Iterating the \<open>Response\<close> that \<open>search\<close> returned for the
  first page: when the second page is the well-formed page with one post, the fetch
  of \<open>next\<close> raises \<open>TypeError\<close> (the call \<open>Post(post)\<close> of line 82, inside
  \<open>session.get\<close>), nothing is yielded from the second page and \<open>self\<close> still holds
  the first page. When the second page holds no post, the six fields are
  overwritten, and the stored raw response and the session are those of the first
  page.
\<close>

theorem iteration_next_page_with_post_raises:
  "\<not> py_eq_zero (more_available first_page)
   \<and> search (two_pages page_with_post) [] [] \<lparr>token = Some ''abc''\<rparr> (RawQuery ''cats'')
        None None = Inr first_page
   \<and> Response_iter (Suc (Suc 0)) (two_pages page_with_post) first_page =
       \<lparr>yielded = [], fetched = [JStr ''http://webhose.io/search?ts=5''],
        self_final = first_page, ending = Raised TypeError\<rparr>
   \<and> Response_iter (Suc (Suc 0)) (two_pages example_page) first_page =
       \<lparr>yielded = [], fetched = [JStr ''http://webhose.io/search?ts=5''],
        self_final = \<lparr>response = page_one, session = \<lparr>token = Some ''abc''\<rparr>,
          total = JNum 7, next_url = JStr ''http://webhose.io/search?ts=9'', next_ts = ''9'',
          left = JNum 3, more_available = JNum 0, posts = []\<rparr>,
        ending = Exhausted\<rparr>"
proof -
  have h: "\<not> py_eq_zero (more_available first_page)"
    by (simp add: first_page_def)
  have g: "http_get (two_pages second) (JStr ''http://webhose.io/search?ts=5'') Map.empty =
      Inr second" for second
    by (simp add: two_pages_def)
  have s: "session first_page = \<lparr>token = Some ''abc''\<rparr>"
    and p: "posts first_page = []"
    and u: "next_url first_page = JStr ''http://webhose.io/search?ts=5''"
    by (simp_all add: first_page_def)
  have a: "Response_init (two_pages page_with_post) page_with_post \<lparr>token = Some ''abc''\<rparr> =
      Inl TypeError"
    by (simp add: Response_init_def json_field_def response_json_def extract_next_ts_def
        py_urljoin_def parse_qs_urlparse_def library_def two_pages_def example_world_def
        page_with_post_def Post_call_def)
  have b: "Response_init (two_pages example_page) example_page \<lparr>token = Some ''abc''\<rparr> =
       Inr \<lparr>response = example_page, session = \<lparr>token = Some ''abc''\<rparr>, total = JNum 7,
            next_url = JStr ''http://webhose.io/search?ts=9'', next_ts = ''9'', left = JNum 3,
            more_available = JNum 0, posts = []\<rparr>"
    by (simp add: Response_init_def json_field_def response_json_def extract_next_ts_def
        py_urljoin_def parse_qs_urlparse_def library_def two_pages_def example_world_def
        example_page_def)
  have c1: "Response_iter (Suc (Suc 0)) (two_pages page_with_post) first_page =
       \<lparr>yielded = [], fetched = [JStr ''http://webhose.io/search?ts=5''],
        self_final = first_page, ending = Raised TypeError\<rparr>"
    unfolding Response_iter_def iter_loop_step [OF h]
    by (simp add: g s p u a)
  have c2: "Response_iter (Suc (Suc 0)) (two_pages example_page) first_page =
       \<lparr>yielded = [], fetched = [JStr ''http://webhose.io/search?ts=5''],
        self_final = \<lparr>response = page_one, session = \<lparr>token = Some ''abc''\<rparr>,
          total = JNum 7, next_url = JStr ''http://webhose.io/search?ts=9'', next_ts = ''9'',
          left = JNum 3, more_available = JNum 0, posts = []\<rparr>,
        ending = Exhausted\<rparr>"
    unfolding Response_iter_def iter_loop_step [OF h]
    by (simp add: g s p u b advance_fields) (simp add: first_page_def)
  from h first_page_searched [of page_with_post] c1 c2 show ?thesis by simp
qed

subsection \<open>Constructing a Response: the cursor timestamp\<close>

text \<open>The lookup errors of Python (the subclasses of \<open>LookupError\<close>): \<open>KeyError\<close> and
  \<open>IndexError\<close>.\<close>

fun lookup_error :: "error \<Rightarrow> bool" where
  "lookup_error (KeyError k) = True"
| "lookup_error IndexError = True"
| "lookup_error e = False"

lemma json_field_obj:
  "json_body r = Some (JObj kvs) \<Longrightarrow>
   json_field r key = (case map_of kvs key of None \<Rightarrow> Inl (KeyError key) | Some v \<Rightarrow> Inr v)"
  by (simp add: json_field_def response_json_def)

lemma Response_init_no_next:
  assumes "json_body r = Some (JObj kvs)" and "map_of kvs ''next'' = None"
  shows "Response_init w r s =
    Inl (KeyError (if map_of kvs ''totalResults'' = None then ''totalResults'' else ''next''))"
  using assms by (auto simp: Response_init_def json_field_obj split: option.splits)

lemma py_urljoin_null: "\<exists>x. py_urljoin w base JNull = Inr x"
  by (simp add: py_urljoin_def)

lemma extract_next_ts_null:
  assumes "json_body r = Some (JObj kvs)" and "map_of kvs ''next'' = Some JNull"
  shows "extract_next_ts w r = Inl AttributeError"
  using assms by (simp add: extract_next_ts_def json_field_obj parse_qs_urlparse_def)

lemma Response_init_null_next:
  assumes "json_body r = Some (JObj kvs)" and "map_of kvs ''next'' = Some JNull"
  shows "Response_init w r s =
    Inl (if map_of kvs ''totalResults'' = None then KeyError ''totalResults''
         else AttributeError)"
proof (cases "map_of kvs ''totalResults''")
  case None
  with assms show ?thesis
    by (simp add: Response_init_def json_field_obj)
next
  case (Some t)
  obtain x where "py_urljoin w (url r) JNull = Inr x"
    using py_urljoin_null by blast
  with Some assms extract_next_ts_null [OF assms, of w] show ?thesis
    by (simp add: Response_init_def json_field_obj)
qed

lemma parse_qs_urlparse_not_null:
  "n \<noteq> JNull \<Longrightarrow> parse_qs_urlparse w n = library (url_params w n)"
  by (cases n) (simp_all add: parse_qs_urlparse_def)

lemma extract_next_ts_no_ts:
  assumes "json_body r = Some (JObj kvs)" and "map_of kvs ''next'' = Some n" and "n \<noteq> JNull"
  shows "url_params w n = Inl e \<Longrightarrow> extract_next_ts w r = Inl (LibraryError e)"
    and "url_params w n = Inr ps \<Longrightarrow> ps ''ts'' = None \<Longrightarrow>
      extract_next_ts w r = Inl (KeyError ''ts'')"
  using assms
  by (simp_all add: extract_next_ts_def json_field_obj parse_qs_urlparse_not_null library_def)

lemma Response_init_no_ts:
  assumes "json_body r = Some (JObj kvs)" and "map_of kvs ''next'' = Some n" and "n \<noteq> JNull"
    and "case url_params w n of Inl e \<Rightarrow> True | Inr ps \<Rightarrow> ps ''ts'' = None"
  shows "\<exists>e. Response_init w r s = Inl e"
proof (cases "json_field r ''totalResults''")
  case (Inl e)
  then show ?thesis by (simp add: Response_init_def)
next
  case tot: (Inr t)
  show ?thesis
  proof (cases "py_urljoin w (url r) n")
    case (Inl e)
    with tot assms show ?thesis
      by (simp add: Response_init_def json_field_obj)
  next
    case (Inr x)
    have "\<exists>e. extract_next_ts w r = Inl e"
      using assms extract_next_ts_no_ts [OF assms(1-3), of w]
      by (cases "url_params w n") auto
    with tot Inr assms show ?thesis
      by (auto simp: Response_init_def json_field_obj)
  qed
qed

lemma Response_init_no_ts_exact:
  assumes "json_body r = Some (JObj kvs)" and "map_of kvs ''next'' = Some n" and "n \<noteq> JNull"
    and "map_of kvs ''totalResults'' = Some t" and "py_urljoin w (url r) n = Inr x"
  shows "url_params w n = Inl e \<Longrightarrow> Response_init w r s = Inl (LibraryError e)"
    and "url_params w n = Inr ps \<Longrightarrow> ps ''ts'' = None \<Longrightarrow>
      Response_init w r s = Inl (KeyError ''ts'')"
  using assms extract_next_ts_no_ts [OF assms(1-3), of w]
  by (simp_all add: Response_init_def json_field_obj)

text \<open>
  C9 (as amended). \<open>Response.__init__\<close> always reads \<open>next\<close> and the \<open>ts\<close> parameter of
  its URL, whatever \<open>moreResultsAvailable\<close> says. For every page whose body is a JSON
  object: when \<open>next\<close> is absent the construction raises \<open>KeyError\<close>; when \<open>next\<close> is
  \<open>null\<close> it raises \<open>AttributeError\<close> (from \<open>urlparse(None)\<close>; \<open>KeyError\<close> only if
  \<open>totalResults\<close> is missing as well); when \<open>next\<close> holds another value \<open>n\<close> in which the
  URL library finds no \<open>ts\<close> parameter (it raises on \<open>n\<close>, or returns parameters
  without \<open>ts\<close>), the construction fails, and once the earlier statements have passed
  the error is \<open>KeyError 'ts'\<close>, or the library's own when it raised.
\<close>

theorem Response_init_needs_next_ts:
  assumes "json_body r = Some (JObj kvs)"
  shows "(map_of kvs ''next'' = None \<longrightarrow>
           Response_init w r s =
             Inl (KeyError (if map_of kvs ''totalResults'' = None then ''totalResults''
                            else ''next'')))
    \<and> (map_of kvs ''next'' = Some JNull \<longrightarrow>
           Response_init w r s =
             Inl (if map_of kvs ''totalResults'' = None then KeyError ''totalResults''
                  else AttributeError))
    \<and> (map_of kvs ''next'' = Some n \<and> n \<noteq> JNull
         \<and> (case url_params w n of Inl e \<Rightarrow> True | Inr ps \<Rightarrow> ps ''ts'' = None) \<longrightarrow>
           (\<exists>e. Response_init w r s = Inl e)
           \<and> (\<forall>t x. map_of kvs ''totalResults'' = Some t \<and> py_urljoin w (url r) n = Inr x \<longrightarrow>
                Response_init w r s =
                  (case url_params w n of Inl e \<Rightarrow> Inl (LibraryError e)
                                        | Inr ps \<Rightarrow> Inl (KeyError ''ts''))))"
proof (intro conjI impI allI)
  assume "map_of kvs ''next'' = None"
  with assms show "Response_init w r s =
      Inl (KeyError (if map_of kvs ''totalResults'' = None then ''totalResults'' else ''next''))"
    by (rule Response_init_no_next)
next
  assume "map_of kvs ''next'' = Some JNull"
  with assms show "Response_init w r s =
      Inl (if map_of kvs ''totalResults'' = None then KeyError ''totalResults''
           else AttributeError)"
    by (rule Response_init_null_next)
next
  assume a: "map_of kvs ''next'' = Some n \<and> n \<noteq> JNull
    \<and> (case url_params w n of Inl e \<Rightarrow> True | Inr ps \<Rightarrow> ps ''ts'' = None)"
  then show "\<exists>e. Response_init w r s = Inl e"
    using Response_init_no_ts [OF assms, of n w s] by blast
next
  fix t x
  assume a: "map_of kvs ''next'' = Some n \<and> n \<noteq> JNull
    \<and> (case url_params w n of Inl e \<Rightarrow> True | Inr ps \<Rightarrow> ps ''ts'' = None)"
    and b: "map_of kvs ''totalResults'' = Some t \<and> py_urljoin w (url r) n = Inr x"
  show "Response_init w r s =
      (case url_params w n of Inl e \<Rightarrow> Inl (LibraryError e) | Inr ps \<Rightarrow> Inl (KeyError ''ts''))"
  proof (cases "url_params w n")
    case (Inl e)
    with Response_init_no_ts_exact(1) [OF assms, of n t w x e s] a b show ?thesis by simp
  next
    case (Inr ps)
    with Response_init_no_ts_exact(2) [OF assms, of n t w x ps s] a b show ?thesis by simp
  qed
qed

text \<open>Last pages (\<open>moreResultsAvailable\<close> is 0) without \<open>next\<close>, and with the value \<open>n\<close>
  under \<open>next\<close>.\<close>

definition page_without_next :: http_response where
  "page_without_next =
     \<lparr>url = ''http://webhose.io/search?q=cats'', status_code = 200, resp_text = ''{...}'',
      json_body = Some (JObj [(''totalResults'', JNum 0), (''requestsLeft'', JNum 3),
        (''moreResultsAvailable'', JNum 0), (''posts'', JArr [])])\<rparr>"

definition last_page_body :: "json \<Rightarrow> http_response" where
  "last_page_body n =
     \<lparr>url = ''http://webhose.io/search?q=cats'', status_code = 200, resp_text = ''{...}'',
      json_body = Some (JObj [(''totalResults'', JNum 7), (''next'', n),
        (''requestsLeft'', JNum 3), (''moreResultsAvailable'', JNum 0),
        (''posts'', JArr [])])\<rparr>"

text \<open>The claim as stated fails on a last page whose \<open>next\<close> is \<open>null\<close>: the construction
  raises \<open>AttributeError\<close>, which is not a lookup error.\<close>

theorem null_next_counterexample:
  "Response_init example_world (last_page_body JNull) \<lparr>token = None\<rparr> = Inl AttributeError
   \<and> \<not> lookup_error AttributeError"
  by (simp add: Response_init_def json_field_def response_json_def extract_next_ts_def
      py_urljoin_def parse_qs_urlparse_def last_page_body_def)

theorem Response_init_needs_next_ts_witness:
  "json_body page_without_next = Some (JObj [(''totalResults'', JNum 0),
      (''requestsLeft'', JNum 3), (''moreResultsAvailable'', JNum 0), (''posts'', JArr [])])
   \<and> Response_init example_world page_without_next \<lparr>token = None\<rparr> = Inl (KeyError ''next'')
   \<and> Response_init example_world (last_page_body JNull) \<lparr>token = None\<rparr> = Inl AttributeError
   \<and> Response_init example_world (last_page_body (JStr ''/search?q=cats'')) \<lparr>token = None\<rparr> =
        Inl (KeyError ''ts'')"
proof -
  have b0: "json_body page_without_next = Some (JObj [(''totalResults'', JNum 0),
      (''requestsLeft'', JNum 3), (''moreResultsAvailable'', JNum 0), (''posts'', JArr [])])"
    by (simp add: page_without_next_def)
  have b1: "json_body (last_page_body n) = Some (JObj [(''totalResults'', JNum 7), (''next'', n),
        (''requestsLeft'', JNum 3), (''moreResultsAvailable'', JNum 0),
        (''posts'', JArr [])])" for n
    by (simp add: last_page_body_def)
  from Response_init_needs_next_ts [OF b0, where w = example_world and s = "\<lparr>token = None\<rparr>"
      and n = JNull]
  have a: "Response_init example_world page_without_next \<lparr>token = None\<rparr> = Inl (KeyError ''next'')"
    by simp
  have up2: "url_params example_world (JStr ''/search?q=cats'') = Inr Map.empty"
    and uj2: "py_urljoin example_world (url (last_page_body (JStr ''/search?q=cats'')))
      (JStr ''/search?q=cats'') = Inr (JStr ''http://webhose.io/search?q=cats'')"
    by (simp_all add: example_world_def last_page_body_def py_urljoin_def library_def)
  from Response_init_needs_next_ts [OF b1 [of JNull], where w = example_world
      and s = "\<lparr>token = None\<rparr>" and n = JNull]
  have b: "Response_init example_world (last_page_body JNull) \<lparr>token = None\<rparr> =
        Inl AttributeError"
    by simp
  from Response_init_needs_next_ts [OF b1 [of "JStr ''/search?q=cats''"], where w = example_world
      and s = "\<lparr>token = None\<rparr>" and n = "JStr ''/search?q=cats''"]
  have c: "Response_init example_world (last_page_body (JStr ''/search?q=cats'')) \<lparr>token = None\<rparr> =
        Inl (KeyError ''ts'')"
    by (simp add: up2 uj2)
  from b0 a b c show ?thesis by simp
qed

subsection \<open>Timestamps\<close>

text \<open>A naive \<open>datetime\<close> (no microseconds: the format parsed here has none).\<close>

record datetime =
  year :: int
  month :: int
  day :: int
  hour :: int
  minute :: int
  second :: int

text \<open>The proleptic Gregorian calendar of the \<open>datetime\<close> module: ordinals count days
  from 0001-01-01, which is day 1.\<close>

definition is_leap :: "int \<Rightarrow> bool" where
  "is_leap y = (y mod 4 = 0 \<and> (y mod 100 \<noteq> 0 \<or> y mod 400 = 0))"

definition days_in_month :: "int \<Rightarrow> int \<Rightarrow> int" where
  "days_in_month y m =
     (if m = 2 then (if is_leap y then 29 else 28)
      else if m = 4 \<or> m = 6 \<or> m = 9 \<or> m = 11 then 30 else 31)"

definition days_before_year :: "int \<Rightarrow> int" where
  "days_before_year y = (y - 1) * 365 + (y - 1) div 4 - (y - 1) div 100 + (y - 1) div 400"

definition days_before_month :: "int \<Rightarrow> int \<Rightarrow> int" where
  "days_before_month y m =
     [0, 0, 31, 59, 90, 120, 151, 181, 212, 243, 273, 304, 334] ! nat m
       + (if 2 < m \<and> is_leap y then 1 else 0)"

definition ymd2ord :: "int \<Rightarrow> int \<Rightarrow> int \<Rightarrow> int" where
  "ymd2ord y m d = days_before_year y + days_before_month y m + d"

definition ord2ymd :: "int \<Rightarrow> int \<times> int \<times> int" where
  "ord2ymd ordinal =
     (let n = ordinal - 1;
          n400 = n div 146097; n = n mod 146097;
          n100 = n div 36524; n = n mod 36524;
          n4 = n div 1461; n = n mod 1461;
          n1 = n div 365; n = n mod 365;
          y = n400 * 400 + 1 + n100 * 100 + n4 * 4 + n1
      in if n1 = 4 \<or> n100 = 4 then (y - 1, 12, 31)
         else
           (let leapyear = (n1 = 3 \<and> (n4 \<noteq> 24 \<or> n100 = 3));
                m = (n + 50) div 32;
                preceding = [0, 0, 31, 59, 90, 120, 151, 181, 212, 243, 273, 304, 334] ! nat m
                  + (if 2 < m \<and> leapyear then 1 else 0)
            in if n < preceding
               then (y, m - 1,
                     n - (preceding - (days_in_month y (m - 1))) + 1)
               else (y, m, n - preceding + 1)))"

text \<open>\<open>dt - timedelta(seconds=k)\<close>: \<open>OverflowError\<close> outside the years 1 to 9999.\<close>

definition datetime_minus :: "datetime \<Rightarrow> int \<Rightarrow> error + datetime" where
  "datetime_minus dt k =
     (let t = ymd2ord (year dt) (month dt) (day dt) * 86400
                + hour dt * 3600 + minute dt * 60 + second dt - k;
          ordinal = t div 86400; rest = t mod 86400
      in if 1 \<le> ordinal \<and> ordinal \<le> 3652059
         then (case ord2ymd ordinal of (y, m, d) \<Rightarrow>
                 Inr \<lparr>year = y, month = m, day = d, hour = rest div 3600,
                      minute = rest mod 3600 div 60, second = rest mod 60\<rparr>)
         else Inl OverflowError)"

text \<open>\<open>int(s)\<close> on a byte string: surrounding whitespace, an optional sign, decimal
  digits.\<close>

definition is_digit :: "char \<Rightarrow> bool" where
  "is_digit c = (c \<in> set ''0123456789'')"

definition is_space :: "char \<Rightarrow> bool" where
  "is_space c = (c \<in> {CHR '' '', CHR 0x09, CHR 0x0A, CHR 0x0B, CHR 0x0C, CHR 0x0D})"

definition digit_val :: "char \<Rightarrow> int" where
  "digit_val c = int (of_char c) - 48"

definition decimal :: "string \<Rightarrow> int" where
  "decimal ds = foldl (\<lambda>acc c. acc * 10 + digit_val c) 0 ds"

definition py_int :: "string \<Rightarrow> error + int" where
  "py_int s =
     (let t = rev (dropWhile is_space (rev (dropWhile is_space s)));
          (sgn, ds) = (case t of
              c # cs \<Rightarrow> if c = CHR ''-'' then (-1, cs) else if c = CHR ''+'' then (1, cs) else (1, t)
            | [] \<Rightarrow> (1, t))
      in if ds \<noteq> [] \<and> list_all is_digit ds then Inr (sgn * decimal ds) else Inl ValueError)"

text \<open>\<open>datetime.strptime(s, "%Y-%m-%dT%H:%M:%S")\<close>. The format is compiled to a regular
  expression whose directives are alternations, tried in order with backtracking and
  matched ignoring case; a regular expression is here a list of alternations, an
  alternative a list of character classes, a character class the string of its
  characters.\<close>

fun match_seq :: "string list \<Rightarrow> string \<Rightarrow> (string \<times> string) option" where
  "match_seq [] s = Some ([], s)"
| "match_seq (cls # clss) [] = None"
| "match_seq (cls # clss) (c # cs) =
     (if c \<in> set cls
      then (case match_seq clss cs of None \<Rightarrow> None | Some (m, rest) \<Rightarrow> Some (c # m, rest))
      else None)"

function match_re :: "string list list list \<Rightarrow> string \<Rightarrow> (string list \<times> string) option"
  and try_alts :: "string list list \<Rightarrow> string list list list \<Rightarrow> string
    \<Rightarrow> (string list \<times> string) option" where
  "match_re [] s = Some ([], s)"
| "match_re (alts # items) s = try_alts alts items s"
| "try_alts [] items s = None"
| "try_alts (a # as) items s =
     (case match_seq a s of
        None \<Rightarrow> try_alts as items s
      | Some (m, rest) \<Rightarrow>
          (case match_re items rest of
             None \<Rightarrow> try_alts as items s
           | Some (gs, r) \<Rightarrow> Some (m # gs, r)))"
  by pat_completeness auto
termination
  by (relation "measures [\<lambda>x. case x of Inl (items, s) \<Rightarrow> 2 * length items
                                       | Inr (alts, items, s) \<Rightarrow> 2 * length items + 1,
                          \<lambda>x. case x of Inl (items, s) \<Rightarrow> 0
                                       | Inr (alts, items, s) \<Rightarrow> length alts]") auto

definition digit_class :: string where
  "digit_class = ''0123456789''"

definition iso_regex :: "string list list list" where
  "iso_regex =
     [[[digit_class, digit_class, digit_class, digit_class]], [[''-'']],
      [[''1'', ''012''], [''0'', ''123456789''], [''123456789'']], [[''-'']],
      [[''3'', ''01''], [''12'', digit_class], [''0'', ''123456789''], [''123456789''],
       ['' '', ''123456789'']],
      [[''Tt'']],
      [[''2'', ''0123''], [''01'', digit_class], [digit_class]], [['':'']],
      [[''012345'', digit_class], [digit_class]], [['':'']],
      [[''6'', ''01''], [''012345'', digit_class], [digit_class]]]"

definition strptime :: "string \<Rightarrow> error + datetime" where
  "strptime s =
     (case match_re iso_regex s of
        Some ([Y, s1, m, s2, dd, s3, H, s4, M, s5, S], []) \<Rightarrow>
          (let y = decimal Y; mo = decimal m; da = decimal (dropWhile is_space dd);
               sec = decimal S
           in if 1 \<le> y \<and> da \<le> days_in_month y mo \<and> sec \<le> 59
              then Inr \<lparr>year = y, month = mo, day = da, hour = decimal H,
                        minute = decimal M, second = sec\<rparr>
              else Inl ValueError)
      | _ \<Rightarrow> Inl ValueError)"

text \<open>\<open>parse_iso8601\<close>. \<open>str_date[:-10]\<close> drops the last ten characters,
  \<open>str_date[24:26]\<close> and \<open>str_date[27:29]\<close> are slices (never out of range),
  \<open>str_date[23]\<close> raises \<open>IndexError\<close> on a shorter string.\<close>

definition parse_iso8601 :: "string \<Rightarrow> error + datetime" where
  "parse_iso8601 str_date =
     bind (strptime (take (length str_date - 10) str_date)) (\<lambda>dt.
     bind (py_int (take 2 (drop 24 str_date))) (\<lambda>hours.
     bind (py_int (take 2 (drop 27 str_date))) (\<lambda>minutes.
     bind (if 23 < length str_date then Inr (str_date ! 23) else Inl IndexError) (\<lambda>sign_char.
       datetime_minus dt
         ((hours * 3600 + minutes * 60) * (if sign_char = CHR ''+'' then 1 else -1))))))"

lemma take2_drop:
  assumes "Suc n < length s"
  shows "take 2 (drop n s) = [s ! n, s ! Suc n]"
proof -
  from assms have "drop n s = s ! n # drop (Suc n) s"
    by (simp add: Cons_nth_drop_Suc)
  moreover from assms have "drop (Suc n) s = s ! Suc n # drop (Suc (Suc n)) s"
    by (simp add: Cons_nth_drop_Suc)
  ultimately show ?thesis
    by (simp add: numeral_2_eq_2)
qed

lemma parse_iso8601_positions:
  assumes "length s = 29"
  shows "parse_iso8601 s =
     bind (strptime (take 19 s)) (\<lambda>dt.
     bind (py_int [s ! 24, s ! 25]) (\<lambda>hours.
     bind (py_int [s ! 27, s ! 28]) (\<lambda>minutes.
       datetime_minus dt
         ((hours * 3600 + minutes * 60) * (if s ! 23 = CHR ''+'' then 1 else -1)))))"
proof -
  have a: "take 2 (drop 24 s) = [s ! 24, s ! 25]"
    using take2_drop [of 24 s] assms by simp
  have b: "take 2 (drop 27 s) = [s ! 27, s ! 28]"
    using take2_drop [of 27 s] assms by simp
  show ?thesis
    using assms by (simp add: parse_iso8601_def a b)
qed

lemma example_parse:
  "parse_iso8601 ''2016-06-01T10:00:00.000+03:00'' =
     Inr \<lparr>year = 2016, month = 6, day = 1, hour = 7, minute = 0, second = 0\<rparr>"
  by code_simp

text \<open>
  C7. On a timestamp of 29 characters, \<open>parse_iso8601\<close> parses the first 19
  characters as \<open>YYYY-MM-DDTHH:MM:SS\<close>, reads the offset's sign at position 23, its
  hours at positions 24 and 25 and its minutes at positions 27 and 28, and subtracts
  the signed offset from the naive timestamp. \<open>2016-06-01T10:00:00.000+03:00\<close> parses to
  2016-06-01 07:00:00.
\<close>

theorem parse_iso8601_fixed_positions:
  assumes "length s = 29"
  shows "parse_iso8601 s =
      bind (strptime (take 19 s)) (\<lambda>dt.
      bind (py_int [s ! 24, s ! 25]) (\<lambda>hours.
      bind (py_int [s ! 27, s ! 28]) (\<lambda>minutes.
        datetime_minus dt
          ((hours * 3600 + minutes * 60) * (if s ! 23 = CHR ''+'' then 1 else -1)))))
    \<and> parse_iso8601 ''2016-06-01T10:00:00.000+03:00'' =
        Inr \<lparr>year = 2016, month = 6, day = 1, hour = 7, minute = 0, second = 0\<rparr>"
  using parse_iso8601_positions [OF assms] example_parse by simp

theorem parse_iso8601_fixed_positions_witness:
  "length ''2016-03-01T01:30:00.000+03:00'' = 29
   \<and> strptime (take 19 ''2016-03-01T01:30:00.000+03:00'') =
       Inr \<lparr>year = 2016, month = 3, day = 1, hour = 1, minute = 30, second = 0\<rparr>
   \<and> parse_iso8601 ''2016-03-01T01:30:00.000+03:00'' =
       Inr \<lparr>year = 2016, month = 2, day = 29, hour = 22, minute = 30, second = 0\<rparr>
   \<and> parse_iso8601 ''2016-12-31T23:30:00.000-05:30'' =
       Inr \<lparr>year = 2017, month = 1, day = 1, hour = 5, minute = 0, second = 0\<rparr>"
proof -
  have l1: "length ''2016-03-01T01:30:00.000+03:00'' = 29"
    and l2: "length ''2016-12-31T23:30:00.000-05:30'' = 29"
    by simp_all
  have s1: "strptime (take 19 ''2016-03-01T01:30:00.000+03:00'') =
       Inr \<lparr>year = 2016, month = 3, day = 1, hour = 1, minute = 30, second = 0\<rparr>"
    by code_simp
  have s2: "strptime (take 19 ''2016-12-31T23:30:00.000-05:30'') =
       Inr \<lparr>year = 2016, month = 12, day = 31, hour = 23, minute = 30, second = 0\<rparr>"
    by code_simp
  have i1: "py_int [''2016-03-01T01:30:00.000+03:00'' ! 24, ''2016-03-01T01:30:00.000+03:00'' ! 25] = Inr 3"
    and i2: "py_int [''2016-03-01T01:30:00.000+03:00'' ! 27, ''2016-03-01T01:30:00.000+03:00'' ! 28] = Inr 0"
    and i3: "py_int [''2016-12-31T23:30:00.000-05:30'' ! 24, ''2016-12-31T23:30:00.000-05:30'' ! 25] = Inr 5"
    and i4: "py_int [''2016-12-31T23:30:00.000-05:30'' ! 27, ''2016-12-31T23:30:00.000-05:30'' ! 28] = Inr 30"
    by code_simp+
  have c1: "''2016-03-01T01:30:00.000+03:00'' ! 23 = CHR ''+''"
    and c2: "''2016-12-31T23:30:00.000-05:30'' ! 23 \<noteq> CHR ''+''"
    by code_simp+
  have d1: "datetime_minus \<lparr>year = 2016, month = 3, day = 1, hour = 1, minute = 30, second = 0\<rparr>
      10800 = Inr \<lparr>year = 2016, month = 2, day = 29, hour = 22, minute = 30, second = 0\<rparr>"
    by code_simp
  have d2: "datetime_minus \<lparr>year = 2016, month = 12, day = 31, hour = 23, minute = 30, second = 0\<rparr>
      (- 19800) = Inr \<lparr>year = 2017, month = 1, day = 1, hour = 5, minute = 0, second = 0\<rparr>"
    by code_simp
  from parse_iso8601_fixed_positions [OF l1]
  have p1: "parse_iso8601 ''2016-03-01T01:30:00.000+03:00'' =
       Inr \<lparr>year = 2016, month = 2, day = 29, hour = 22, minute = 30, second = 0\<rparr>"
    by (simp only: s1 i1 i2 c1 bind_Inr if_True) (simp add: d1)
  from parse_iso8601_fixed_positions [OF l2]
  have p2: "parse_iso8601 ''2016-12-31T23:30:00.000-05:30'' =
       Inr \<lparr>year = 2017, month = 1, day = 1, hour = 5, minute = 0, second = 0\<rparr>"
    by (simp only: s2 i3 i4 c2 bind_Inr if_False) (simp add: d2)
  from l1 s1 p1 p2 show ?thesis by blast
qed

end
